theory Spec2Isabelle
  imports Main "HOL-Library.Word" "HOL-Library.AList"
begin

unbundle bit_operations_syntax

section \<open>Python values, exceptions and slices\<close>

text \<open>
  beetFs.py is Python. An exception is a value of \<open>error\<close>; a call that may raise
  returns \<open>error + 'a\<close> with \<open>Inl\<close> the exception. Text is \<open>string\<close>, file
  contents are lists of 8-bit words. A string literal compared with file contents
  (\<open>"fLaC"\<close>, \<open>"ID3"\<close>) is compared byte by byte, as a byte string is.
\<close>

datatype error =
    KeyError | IndexError | TypeError | ValueError | AttributeError
  | UnboundLocalError | AssertionError | IOError | PyException
  | FLACNoHeaderError | FLACVorbisError | MutagenError

type_synonym byte = "8 word"
type_synonym bytes = "byte list"

definition andThen :: "error + 'a \<Rightarrow> ('a \<Rightarrow> error + 'b) \<Rightarrow> error + 'b" where
  "andThen r f = (case r of Inl e \<Rightarrow> Inl e | Inr x \<Rightarrow> f x)"

text \<open>\<open>d[k]\<close> on a dict: KeyError when the key is absent.\<close>

definition getitem :: "('k \<rightharpoonup> 'v) \<Rightarrow> 'k \<Rightarrow> error + 'v" where
  "getitem d k = (case d k of None \<Rightarrow> Inl KeyError | Some v \<Rightarrow> Inr v)"

text \<open>
  \<open>xs[i:j]\<close>: a negative index counts from the end, and both ends are clamped to
  the sequence, so a slice never raises.
\<close>

definition slice_index :: "nat \<Rightarrow> int \<Rightarrow> nat" where
  "slice_index n k = (if k < 0 then nat (max 0 (k + int n)) else min (nat k) n)"

definition py_slice :: "'a list \<Rightarrow> int \<Rightarrow> int \<Rightarrow> 'a list" where
  "py_slice xs i j =
     (let a = slice_index (length xs) i; b = slice_index (length xs) j
      in take (b - a) (drop a xs))"

text \<open>\<open>xs[i:]\<close>.\<close>

definition py_slice_from :: "'a list \<Rightarrow> int \<Rightarrow> 'a list" where
  "py_slice_from xs i = drop (slice_index (length xs) i) xs"

text \<open>\<open>str(n)\<close> and \<open>'%02i' % n\<close> for an integer.\<close>

definition digit_char :: "nat \<Rightarrow> char" where
  "digit_char d = ''0123456789'' ! (d mod 10)"

fun digits :: "nat \<Rightarrow> string" where
  "digits n = (if n < 10 then [digit_char n] else digits (n div 10) @ [digit_char (n mod 10)])"

declare digits.simps [simp del]

definition str_int :: "int \<Rightarrow> string" where
  "str_int i = (if i < 0 then CHR ''-'' # digits (nat (- i)) else digits (nat i))"

definition fmt_02i :: "int \<Rightarrow> string" where
  "fmt_02i i = (let s = str_int i in if length s < 2 then CHR ''0'' # s else s)"

definition str_bool :: "bool \<Rightarrow> string" where
  "str_bool b = (if b then ''True'' else ''False'')"

text \<open>\<open>s.lower()\<close> and \<open>s.upper()\<close>, on the ASCII letters.\<close>

definition lower_char :: "char \<Rightarrow> char" where
  "lower_char c =
     (let n = of_char c :: nat in if 65 \<le> n \<and> n \<le> 90 then char_of (n + 32) else c)"

definition upper_char :: "char \<Rightarrow> char" where
  "upper_char c =
     (let n = of_char c :: nat in if 97 \<le> n \<and> n \<le> 122 then char_of (n - 32) else c)"

definition lower :: "string \<Rightarrow> string" where
  "lower s = map lower_char s"

definition upper :: "string \<Rightarrow> string" where
  "upper s = map upper_char s"

text \<open>\<open>s.split(sep)\<close> for a one-character separator: always at least one piece.\<close>

fun split :: "char \<Rightarrow> string \<Rightarrow> string list" where
  "split sep [] = [[]]"
| "split sep (c # cs) =
     (if c = sep then [] # split sep cs
      else (case split sep cs of p # ps \<Rightarrow> (c # p) # ps | [] \<Rightarrow> [[c]]))"

text \<open>
  \<open>os.path.splitext(p)[1]\<close>: the extension starts at the last dot of the last path
  component, unless only dots precede it there.
\<close>

definition splitext_ext :: "string \<Rightarrow> string" where
  "splitext_ext p =
     (let base = rev (takeWhile (\<lambda>c. c \<noteq> CHR ''/'') (rev p));
          ext = rev (takeWhile (\<lambda>c. c \<noteq> CHR ''.'') (rev base));
          stem = take (length base - length ext - 1) base
      in if CHR ''.'' \<in> set base \<and> list_ex (\<lambda>c. c \<noteq> CHR ''.'') stem
         then CHR ''.'' # ext else [])"

section \<open>Path template resolver: \<open>template_mapping\<close>\<close>

text \<open>
  A library item, with the fields of \<open>METADATA_FIELDS\<close>, its identifier and the path of
  its file. The real-valued \<open>length\<close> is held as the text \<open>str\<close> gives for it, which is
  all this program does with it.
\<close>

record item =
  item_id :: nat
  path :: string
  item_length :: string
  bitrate :: int
  title :: string
  artist :: string
  album :: string
  genre :: string
  composer :: string
  grouping :: string
  year :: int
  month :: int
  day :: int
  track :: int
  tracktotal :: int
  disc :: int
  disctotal :: int
  lyrics :: string
  comments :: string
  bpm :: int
  item_comp :: bool

datatype pyval = PStr string | PInt int | PBool bool | PFloat string

definition METADATA_RW_FIELDS :: "(string \<times> string) list" where
  "METADATA_RW_FIELDS =
     [(''title'', ''text''), (''artist'', ''text''), (''album'', ''text''),
      (''genre'', ''text''), (''composer'', ''text''), (''grouping'', ''text''),
      (''year'', ''int''), (''month'', ''int''), (''day'', ''int''),
      (''track'', ''int''), (''tracktotal'', ''int''), (''disc'', ''int''),
      (''disctotal'', ''int''), (''lyrics'', ''text''), (''comments'', ''text''),
      (''bpm'', ''int''), (''comp'', ''bool'')]"

definition METADATA_FIELDS :: "(string \<times> string) list" where
  "METADATA_FIELDS = [(''length'', ''real''), (''bitrate'', ''int'')] @ METADATA_RW_FIELDS"

definition METADATA_KEYS :: "string list" where
  "METADATA_KEYS = map fst METADATA_FIELDS"

text \<open>\<open>getattr(item, key)\<close>.\<close>

definition getattr :: "item \<Rightarrow> string \<Rightarrow> error + pyval" where
  "getattr it key =
     (case map_of
        [(''length'', PFloat (item_length it)), (''bitrate'', PInt (bitrate it)),
         (''title'', PStr (title it)), (''artist'', PStr (artist it)),
         (''album'', PStr (album it)), (''genre'', PStr (genre it)),
         (''composer'', PStr (composer it)), (''grouping'', PStr (grouping it)),
         (''year'', PInt (year it)), (''month'', PInt (month it)),
         (''day'', PInt (day it)), (''track'', PInt (track it)),
         (''tracktotal'', PInt (tracktotal it)), (''disc'', PInt (disc it)),
         (''disctotal'', PInt (disctotal it)), (''lyrics'', PStr (lyrics it)),
         (''comments'', PStr (comments it)), (''bpm'', PInt (bpm it)),
         (''comp'', PBool (item_comp it))] key
      of None \<Rightarrow> Inl AttributeError | Some v \<Rightarrow> Inr v)"

text \<open>
  \<open>re.sub(r'[\\/:]|^\.', '_', value)\<close>: every backslash, slash and colon, and a dot
  at position 0, becomes an underscore. Each match is one character long.
\<close>

definition is_path_char :: "char \<Rightarrow> bool" where
  "is_path_char c = (c = CHR 0x5C \<or> c = CHR ''/'' \<or> c = CHR '':'')"

fun re_sub_path :: "string \<Rightarrow> string" where
  "re_sub_path [] = []"
| "re_sub_path (c # cs) =
     (if is_path_char c \<or> c = CHR ''.'' then CHR ''_'' else c)
       # map (\<lambda>d. if is_path_char d then CHR ''_'' else d) cs"

text \<open>\<open>str(value)\<close>.\<close>

fun str :: "pyval \<Rightarrow> string" where
  "str (PStr s) = s"
| "str (PInt i) = str_int i"
| "str (PBool b) = str_bool b"
| "str (PFloat r) = r"

text \<open>
  \<open>'%02i' % value\<close>. The four position fields are integers in every item; a boolean
  formats as 0 or 1, and the other cases, which no item reaches, are reported as
  TypeError.
\<close>

fun percent_02i :: "pyval \<Rightarrow> error + string" where
  "percent_02i (PInt i) = Inr (fmt_02i i)"
| "percent_02i (PBool b) = Inr (fmt_02i (if b then 1 else 0))"
| "percent_02i v = Inl TypeError"

text \<open>
  The body of the loop over \<open>METADATA_KEYS\<close>. The statement
  \<open>value.replace(os.sep, '_')\<close> discards its result and changes nothing.
\<close>

definition sanitize :: "string \<Rightarrow> pyval \<Rightarrow> error + string" where
  "sanitize key v =
     (case v of
        PStr s \<Rightarrow> Inr (re_sub_path s)
      | _ \<Rightarrow>
          if key \<in> set [''track'', ''tracktotal'', ''disc'', ''disctotal'']
          then percent_02i v
          else Inr (str v))"

fun mapping_loop ::
  "item \<Rightarrow> string list \<Rightarrow> (string \<rightharpoonup> string) \<Rightarrow> error + (string \<rightharpoonup> string)" where
  "mapping_loop it [] mapping = Inr mapping"
| "mapping_loop it (key # keys) mapping =
     andThen (getattr it key) (\<lambda>v.
     andThen (sanitize key v) (\<lambda>s.
     mapping_loop it keys (mapping(key \<mapsto> s))))"

text \<open>The four repairs of "dud entries", in the order of the source.\<close>

definition fix_dud :: "string \<Rightarrow> string \<Rightarrow> string \<Rightarrow> (string \<rightharpoonup> string) \<Rightarrow> error + (string \<rightharpoonup> string)" where
  "fix_dud key dud repl mapping =
     andThen (getitem mapping key) (\<lambda>v.
       Inr (if v = dud then mapping(key \<mapsto> repl) else mapping))"

text \<open>
  \<open>template_mapping\<close>. \<open>format_\<close> (\<open>fmt\<close> below) is the extension of \<open>item.path\<close>
  without its dot; \<open>decode()\<close> makes text of the byte string of the path and changes
  no character here, where both are of type \<open>string\<close>.
\<close>

definition template_mapping :: "item \<Rightarrow> error + (string \<rightharpoonup> string)" where
  "template_mapping it =
     andThen (mapping_loop it METADATA_KEYS Map.empty) (\<lambda>m0.
     let fmt = drop 1 (splitext_ext (path it));
         m1 = m0(''format'' \<mapsto> re_sub_path fmt);
         m2 = m1(''format_upper'' \<mapsto> upper (re_sub_path fmt))
     in andThen (fix_dud ''artist'' [] ''Unknown Artist'' m2) (\<lambda>m3.
        andThen (fix_dud ''album'' [] ''Unknown Album'' m3) (\<lambda>m4.
        andThen (fix_dud ''year'' ''0'' ''Unknown Year'' m4) (\<lambda>m5.
        fix_dud ''title'' [] ''Unknown Track'' m5))))"


section \<open>Directory tree index: \<open>FSNode\<close> and the build loop of \<open>mount\<close>\<close>

text \<open>
  \<open>string.Template(t).substitute(mapping)\<close>: \<open>$$\<close> is a dollar sign, \<open>$name\<close> and
  \<open>${name}\<close> are replaced by \<open>mapping[name]\<close> (KeyError when absent), any other use of
  \<open>$\<close> is a ValueError. Placeholders are replaced from left to right.
\<close>

definition is_id_start :: "char \<Rightarrow> bool" where
  "is_id_start c =
     (let n = of_char c :: nat
      in c = CHR ''_'' \<or> (65 \<le> n \<and> n \<le> 90) \<or> (97 \<le> n \<and> n \<le> 122))"

definition is_id_char :: "char \<Rightarrow> bool" where
  "is_id_char c = (let n = of_char c :: nat in is_id_start c \<or> (48 \<le> n \<and> n \<le> 57))"

function substitute :: "string \<Rightarrow> (string \<rightharpoonup> string) \<Rightarrow> error + string" where
  "substitute [] m = Inr []"
| "substitute (c # cs) m =
     (if c \<noteq> CHR ''$'' then andThen (substitute cs m) (\<lambda>r. Inr (c # r))
      else (case cs of
          [] \<Rightarrow> Inl ValueError
        | d # ds \<Rightarrow>
            if d = CHR ''$'' then andThen (substitute ds m) (\<lambda>r. Inr (CHR ''$'' # r))
            else if is_id_start d then
              andThen (getitem m (takeWhile is_id_char cs)) (\<lambda>v.
              andThen (substitute (dropWhile is_id_char cs) m) (\<lambda>r. Inr (v @ r)))
            else if d = CHR ''{'' \<and> takeWhile is_id_char ds \<noteq> []
                    \<and> is_id_start (hd (takeWhile is_id_char ds))
                    \<and> take 1 (dropWhile is_id_char ds) = ''}'' then
              andThen (getitem m (takeWhile is_id_char ds)) (\<lambda>v.
              andThen (substitute (drop 1 (dropWhile is_id_char ds)) m) (\<lambda>r. Inr (v @ r)))
            else Inl ValueError))"
  by pat_completeness auto
termination
proof (relation "measure (\<lambda>(s, m). length s)")
  show "wf (measure (\<lambda>(s, m). length s))" by simp
next
  fix c :: char and cs m
  show "((cs, m), (c # cs, m)) \<in> measure (\<lambda>(s, m). length s)" by simp
next
  fix c :: char and cs :: string and m :: "string \<rightharpoonup> string" and d ds
  assume "cs = d # ds"
  then show "((ds, m), (c # cs, m)) \<in> measure (\<lambda>(s, m). length s)" by simp
next
  fix c :: char and cs :: string and m :: "string \<rightharpoonup> string" and d ds
  have "length (dropWhile is_id_char cs) \<le> length cs" by (rule length_dropWhile_le)
  then show "((dropWhile is_id_char cs, m), (c # cs, m)) \<in> measure (\<lambda>(s, m). length s)"
    by simp
next
  fix c :: char and cs :: string and m :: "string \<rightharpoonup> string" and d ds
  assume "cs = d # ds"
  moreover have "length (dropWhile is_id_char ds) \<le> length ds" by (rule length_dropWhile_le)
  ultimately show
    "((drop 1 (dropWhile is_id_char ds), m), (c # cs, m)) \<in> measure (\<lambda>(s, m). length s)"
    by simp
qed

text \<open>
  A directory node: \<open>dirs\<close> maps a directory name to its node, \<open>files\<close> a file name to
  an item identifier. The dicts are association lists in insertion order; a store
  under a new key appends, one under an old key replaces the value in place
  (\<open>AList.update\<close>). Every node is created by \<open>FSNode({}, {})\<close> and held by one parent
  only, so the tree is a value.
\<close>

datatype FSNode = FSNode (dirs: "(string \<times> FSNode) list") (files: "(string \<times> nat) list")

text \<open>
  \<open>getnode\<close> pops the head of the caller's list at every level. The first component
  of the result is what is left of that list object when the call ends, by a return
  or by the KeyError of \<open>root.dirs[topdir]\<close>.
\<close>

fun getnode :: "string list \<Rightarrow> FSNode \<Rightarrow> string list \<times> (error + FSNode)" where
  "getnode [] root = ([], Inr root)"
| "getnode (topdir # elements) root =
     (case map_of (dirs root) topdir of
        None \<Rightarrow> (elements, Inl KeyError)
      | Some child \<Rightarrow> getnode elements child)"

text \<open>
  \<open>getnode\<close> returns a reference, and \<open>adddir\<close> and \<open>addfile\<close> change the node behind
  it. In the tree as a value, the changed node is put back where the path leads.
\<close>

fun replace_node :: "string list \<Rightarrow> FSNode \<Rightarrow> FSNode \<Rightarrow> FSNode" where
  "replace_node [] new root = new"
| "replace_node (d # ds) new root =
     (case map_of (dirs root) d of
        None \<Rightarrow> root
      | Some child \<Rightarrow> FSNode (AList.update d (replace_node ds new child) (dirs root)) (files root))"

text \<open>
  \<open>adddir\<close> and \<open>addfile\<close>. When the list is \<open>['']\<close> the local name is bound to a new
  empty list and the caller's list is not touched; otherwise \<open>getnode\<close> consumes the
  caller's list. The first component is the caller's list after the call, the second
  the tree after the call or the exception.
\<close>

definition adddir :: "string list \<Rightarrow> string \<Rightarrow> FSNode \<Rightarrow> string list \<times> (error + FSNode)" where
  "adddir elements directory root =
     (let rebound = (length elements = 1 \<and> elements ! 0 = []);
          path_taken = (if rebound then [] else elements);
          (left, found) = getnode path_taken root
      in (if rebound then elements else left,
          case found of
            Inl e \<Rightarrow> Inl e
          | Inr node \<Rightarrow>
              Inr (replace_node path_taken
                    (if map_of (dirs node) directory \<noteq> None then node
                     else FSNode (AList.update directory (FSNode [] []) (dirs node)) (files node))
                    root)))"

definition addfile :: "string list \<Rightarrow> string \<Rightarrow> nat \<Rightarrow> FSNode \<Rightarrow> string list \<times> (error + FSNode)" where
  "addfile elements filename ident root =
     (let rebound = (length elements = 1 \<and> elements ! 0 = []);
          path_taken = (if rebound then [] else elements);
          (left, found) = getnode path_taken root
      in (if rebound then elements else left,
          case found of
            Inl e \<Rightarrow> Inl e
          | Inr node \<Rightarrow>
              Inr (replace_node path_taken
                    (FSNode (dirs node) (AList.update filename ident (files node))) root)))"

text \<open>\<open>listdir\<close>: the names of the directories or of the files of the node.\<close>

definition listdir :: "string list \<Rightarrow> bool \<Rightarrow> FSNode \<Rightarrow> error + string list" where
  "listdir elements directories root =
     (case snd (getnode (if length elements = 1 \<and> elements ! 0 = [] then [] else elements) root) of
        Inl e \<Rightarrow> Inl e
      | Inr node \<Rightarrow> Inr (if directories then map fst (dirs node) else map fst (files node)))"

text \<open>
  The build loop of \<open>mount\<close> for one item. \<open>level_subbed\<close> is a dict with the keys
  \<open>0 .. structure_depth - 1\<close>, held as the list of its values; a lookup under another
  key, negative ones included, is a KeyError.
\<close>

definition PATH_FORMAT :: string where
  "PATH_FORMAT = ''$artist/$album ($year) [$format_upper]/$track - $artist - $title.$format''"

definition structure_split :: "string list" where
  "structure_split = split CHR ''/'' PATH_FORMAT"

definition level_get :: "string list \<Rightarrow> int \<Rightarrow> error + string" where
  "level_get level_subbed k =
     (if 0 \<le> k \<and> k < int (length level_subbed) then Inr (level_subbed ! nat k)
      else Inl KeyError)"

fun substitute_levels :: "string list \<Rightarrow> (string \<rightharpoonup> string) \<Rightarrow> error + string list" where
  "substitute_levels [] mapping = Inr []"
| "substitute_levels (t # ts) mapping =
     andThen (substitute t mapping) (\<lambda>s.
     andThen (substitute_levels ts mapping) (\<lambda>ss. Inr (s # ss)))"

fun adddir_loop ::
  "string list \<Rightarrow> nat list \<Rightarrow> string list \<Rightarrow> FSNode \<Rightarrow> error + (string list \<times> FSNode)" where
  "adddir_loop level_subbed [] sub_elements root = Inr (sub_elements, root)"
| "adddir_loop level_subbed (level # levels) sub_elements root =
     andThen (if 0 \<le> int level - 1 \<and> int level - 1 < int (length level_subbed)
              then andThen (level_get level_subbed (int level - 1)) (\<lambda>s. Inr (sub_elements @ [s]))
              else Inr sub_elements) (\<lambda>appended.
     andThen (level_get level_subbed (int level)) (\<lambda>directory.
       case adddir appended directory root of
         (left, Inl e) \<Rightarrow> Inl e
       | (left, Inr root') \<Rightarrow> adddir_loop level_subbed levels left root'))"

definition insert_item :: "string list \<Rightarrow> nat \<Rightarrow> FSNode \<Rightarrow> error + FSNode" where
  "insert_item level_subbed ident root =
     (let structure_depth = length level_subbed
      in andThen (adddir_loop level_subbed [0 ..< structure_depth - 1] [] root) (\<lambda>(sub_elements, root1).
         andThen (level_get level_subbed (int structure_depth - 3)) (\<lambda>a.
         andThen (level_get level_subbed (int structure_depth - 2)) (\<lambda>b.
         andThen (level_get level_subbed (int structure_depth - 1)) (\<lambda>filename.
           snd (addfile (sub_elements @ [a, b]) filename ident root1))))))"

definition mount_item :: "string list \<Rightarrow> item \<Rightarrow> FSNode \<Rightarrow> error + FSNode" where
  "mount_item templates it root =
     andThen (template_mapping it) (\<lambda>mapping.
     andThen (substitute_levels templates mapping) (\<lambda>level_subbed.
       insert_item level_subbed (item_id it) root))"

fun mount_items :: "string list \<Rightarrow> item list \<Rightarrow> FSNode \<Rightarrow> error + FSNode" where
  "mount_items templates [] root = Inr root"
| "mount_items templates (it # items) root =
     andThen (mount_item templates it root) (mount_items templates items)"

text \<open>The tree \<open>mount\<close> builds: every item of the library, into an empty root.\<close>

definition directory_structure :: "item list \<Rightarrow> error + FSNode" where
  "directory_structure items = mount_items structure_split items (FSNode [] [])"

section \<open>Tag header codec: \<open>InterpolatedFLAC\<close>\<close>

text \<open>An in-memory stream (\<open>BytesIO\<close>): the contents and the position.\<close>

record bytesio =
  buf :: bytes
  pos :: nat

definition bio_read :: "bytesio \<Rightarrow> nat \<Rightarrow> bytes \<times> bytesio" where
  "bio_read f n = (let d = take n (drop (pos f) (buf f)) in (d, f\<lparr>pos := pos f + length d\<rparr>))"

definition bio_seek :: "bytesio \<Rightarrow> nat \<Rightarrow> bytesio" where
  "bio_seek f k = f\<lparr>pos := k\<rparr>"

definition fLaC :: bytes where
  "fLaC = [0x66, 0x4C, 0x61, 0x43]"

definition ID3 :: bytes where
  "ID3 = [0x49, 0x44, 0x33]"

text \<open>\<open>to_int_be\<close>: \<open>reduce(lambda a, b: (a << 8) + ord(b), string, 0)\<close>.\<close>

definition to_int_be :: "bytes \<Rightarrow> nat" where
  "to_int_be string = foldl (\<lambda>a b. push_bit 8 a + unat b) 0 string"

text \<open>
  \<open>BitPaddedInt\<close> of the tag library, on a byte string: big-endian, seven bits of
  every byte.
\<close>

definition BitPaddedInt :: "bytes \<Rightarrow> nat" where
  "BitPaddedInt string = foldl (\<lambda>a b. push_bit 7 a + unat (b AND 0x7F)) 0 string"

text \<open>
  The metadata blocks of the tag library. \<open>StreamInfo\<close>, \<open>Padding\<close> and \<open>Parsed\<close> stand
  for the classes of its table \<open>METADATA_BLOCKS\<close> (\<open>Parsed\<close> for the seek table, the
  Vorbis comment, the cue sheet and the picture, with what \<open>write()\<close> gives for the
  block); \<open>MetadataBlock\<close> is the opaque block, which carries its code and its data.
  \<open>Padding\<close> carries its \<open>length\<close> and writes that many zero bytes.
\<close>

datatype block = StreamInfo bytes | Padding nat | Parsed nat bytes | MetadataBlock nat bytes

fun block_code :: "block \<Rightarrow> nat" where
  "block_code (StreamInfo d) = 0"
| "block_code (Padding n) = 1"
| "block_code (Parsed c d) = c"
| "block_code (MetadataBlock c d) = c"

fun block_write :: "block \<Rightarrow> bytes" where
  "block_write (StreamInfo d) = d"
| "block_write (Padding n) = replicate n 0"
| "block_write (Parsed c d) = d"
| "block_write (MetadataBlock c d) = d"

fun is_Padding :: "block \<Rightarrow> bool" where
  "is_Padding (Padding n) = True"
| "is_Padding b = False"

fun padding_length :: "block \<Rightarrow> nat" where
  "padding_length (Padding n) = n"
| "padding_length b = 0"

text \<open>\<open>block.length\<close>: the stream information and the padding have the attribute.\<close>

fun has_length :: "block \<Rightarrow> bool" where
  "has_length (StreamInfo d) = True"
| "has_length (Padding n) = True"
| "has_length b = False"

text \<open>
  \<open>MetadataBlock.group_padding\<close> of the tag library: the padding blocks are taken
  out and one padding block is appended, with their lengths and four bytes for each
  block header saved.
\<close>

definition group_padding :: "block list \<Rightarrow> block list" where
  "group_padding blocks =
     (let paddings = filter is_Padding blocks
      in filter (\<lambda>b. \<not> is_Padding b) blocks
           @ [Padding (nat (int (sum_list (map padding_length paddings))
                            + 4 * (int (length paddings) - 1)))])"

text \<open>
  \<open>MetadataBlock.writeblocks\<close> of the tag library: code byte (bit 7 set on the last
  block), 24-bit big-endian length, data. A block longer than \<open>2 ** 24\<close> is the
  library's \<open>error\<close>; an empty list is an IndexError at \<open>codes[-1]\<close>.
\<close>

definition be24 :: "nat \<Rightarrow> bytes" where
  "be24 n = [of_nat (drop_bit 16 n), of_nat (drop_bit 8 n), of_nat n]"

definition write_one :: "bool \<Rightarrow> block \<Rightarrow> bytes" where
  "write_one is_last b =
     (if is_last then of_nat (block_code b) OR 0x80 else of_nat (block_code b))
       # be24 (length (block_write b)) @ block_write b"

definition writeblocks :: "block list \<Rightarrow> error + bytes" where
  "writeblocks blocks =
     (if blocks = [] then Inl IndexError
      else if list_ex (\<lambda>b. length (block_write b) > 2 ^ 24) blocks then Inl MutagenError
      else Inr (concat (map (write_one False) (butlast blocks)) @ write_one True (last blocks)))"

text \<open>The \<open>InterpolatedFLAC\<close> object. \<open>offset\<close> is the private \<open>__offset\<close>, unset at first.\<close>

record flac =
  metadata_blocks :: "block list"
  tags :: "block option"
  cuesheet :: "block option"
  seektable :: "block option"
  filedata :: bytes
  fileobj :: bytesio
  offset :: "nat option"

text \<open>
  \<open>__check_header\<close>. The local \<open>size\<close> (\<open>sz\<close> below) is \<open>None\<close> or a number. When it is \<open>None\<close> the
  \<open>raise\<close> statement first builds its message from \<open>fileobj.name\<close>, which a \<open>BytesIO\<close>
  does not have: the exception that leaves is an AttributeError. The statement
  \<open>return size\<close> stands after the \<open>raise\<close> in the same block and is never reached, so
  when \<open>size\<close> is a number the function ends without a \<open>return\<close> and its value is
  \<open>None\<close>. The result is the value returned and the stream.
\<close>

definition check_header_size :: "bytesio \<Rightarrow> nat option \<times> bytesio" where
  "check_header_size f0 =
     (let (header, f1) = bio_read f0 4
      in if header \<noteq> fLaC then
           (if take 3 header = ID3 then
              (let (six, f2) = bio_read f1 6;
                   sz = 14 + BitPaddedInt (drop 2 six);
                   f3 = bio_seek f2 (sz - 4);
                   (magic, f4) = bio_read f3 4
               in (if magic \<noteq> fLaC then None else Some sz, f4))
            else (None, f1))
         else (Some 4, f1))"

definition check_header :: "bytesio \<Rightarrow> error + (nat option \<times> bytesio)" where
  "check_header f0 =
     (let (sz, f1) = check_header_size f0
      in if sz = None then Inl AttributeError else Inr (None, f1))"

text \<open>
  \<open>__read_metadata_block\<close>. In the \<open>try\<close> body the assignment to \<open>block\<close> stands
  after the \<open>raise\<close>, inside the \<open>if\<close>: it is never executed, and \<open>block\<close> is unbound
  (\<open>None\<close> below) when the \<open>else\<close> branch reads it. The exception of the \<open>try\<close> body is
  not one the handler catches.
\<close>

definition read_block_try :: "bytes \<Rightarrow> nat \<Rightarrow> error + block option" where
  "read_block_try data sz = (if length data \<noteq> sz then Inl PyException else Inr None)"

definition read_block_else :: "flac \<Rightarrow> block option \<Rightarrow> error + flac" where
  "read_block_else self block =
     (case block of
        None \<Rightarrow> Inl UnboundLocalError
      | Some b \<Rightarrow>
          (let self1 = self\<lparr>metadata_blocks := metadata_blocks self @ [b]\<rparr>
           in if block_code b = 4 then
                (if tags self1 = None then Inr (self1\<lparr>tags := Some b\<rparr>) else Inl FLACVorbisError)
              else if block_code b = 5 then
                (if cuesheet self1 = None then Inr (self1\<lparr>cuesheet := Some b\<rparr>) else Inl PyException)
              else if block_code b = 3 then
                (if seektable self1 = None then Inr (self1\<lparr>seektable := Some b\<rparr>) else Inl PyException)
              else Inr self1))"

definition read_metadata_block :: "flac \<Rightarrow> error + (nat \<times> flac)" where
  "read_metadata_block self =
     (let (b1, f1) = bio_read (fileobj self) 1
      in case b1 of
           [byte] \<Rightarrow>
             (let (b3, f2) = bio_read f1 3;
                  sz = to_int_be b3;
                  (data, f3) = bio_read f2 sz;
                  self1 = self\<lparr>fileobj := f3\<rparr>;
                  result = unat (drop_bit 7 byte XOR 1)
              in case read_block_try data sz of
                   Inl e \<Rightarrow>
                     if e = IndexError \<or> e = TypeError
                     then Inr (result, self1\<lparr>metadata_blocks :=
                            metadata_blocks self1 @ [MetadataBlock (unat (byte AND 0x7F)) data]\<rparr>)
                     else Inl e
                 | Inr block \<Rightarrow>
                     andThen (read_block_else self1 block) (\<lambda>self2. Inr (result, self2)))
         | _ \<Rightarrow> Inl TypeError)"

text \<open>
  The loop \<open>while self.__read_metadata_block(self.fileobj): pass\<close>. A round that
  returns has read at least one byte, which bounds the number of rounds.
\<close>

function read_metadata_blocks :: "flac \<Rightarrow> error + flac" where
  "read_metadata_blocks self =
     (case read_metadata_block self of
        Inl e \<Rightarrow> Inl e
      | Inr (again, self1) \<Rightarrow> if again \<noteq> 0 then read_metadata_blocks self1 else Inr self1)"
  by pat_completeness auto
termination
proof (relation "measure (\<lambda>self. length (buf (fileobj self)) - pos (fileobj self))", goal_cases)
  case 1
  show ?case by simp
next
  case (2 self x2 again self1)
  then have ret: "read_metadata_block self = Inr (again, self1)" by simp
  obtain b1 f1 where r1: "bio_read (fileobj self) 1 = (b1, f1)" by (cases "bio_read (fileobj self) 1")
  obtain b3 f2 where r2: "bio_read f1 3 = (b3, f2)" by (cases "bio_read f1 3")
  obtain data f3 where r3: "bio_read f2 (to_int_be b3) = (data, f3)"
    by (cases "bio_read f2 (to_int_be b3)")
  from ret r1 obtain byte where b1: "b1 = [byte]"
    by (auto simp: read_metadata_block_def split: list.splits)
  from r1 b1 have t: "take 1 (drop (pos (fileobj self)) (buf (fileobj self))) = [byte]"
    by (simp add: bio_read_def Let_def)
  then have "drop (pos (fileobj self)) (buf (fileobj self)) \<noteq> []" by auto
  then have lt: "pos (fileobj self) < length (buf (fileobj self))" by simp
  from t have "length (take 1 (drop (pos (fileobj self)) (buf (fileobj self)))) = 1" by simp
  with r1 have p1: "pos f1 = pos (fileobj self) + 1" "buf f1 = buf (fileobj self)"
    by (auto simp: bio_read_def Let_def simp del: length_take length_drop)
  from r2 have p2: "pos f1 \<le> pos f2" "buf f2 = buf f1" by (auto simp: bio_read_def Let_def)
  from r3 have p3: "pos f2 \<le> pos f3" "buf f3 = buf f2" by (auto simp: bio_read_def Let_def)
  from ret r1 r2 r3 b1 have "fileobj self1 = f3"
    by (auto simp: read_metadata_block_def read_block_try_def read_block_else_def andThen_def
        Let_def split: if_splits sum.splits option.splits)
  with lt p1 p2 p3 show ?case by simp
qed

definition load :: "bytes \<Rightarrow> error + flac" where
  "load data =
     (let self0 = \<lparr>metadata_blocks = [], tags = None, cuesheet = None, seektable = None,
                   filedata = data, fileobj = \<lparr>buf = data, pos = 0\<rparr>, offset = None\<rparr>
      in andThen (check_header (fileobj self0)) (\<lambda>(header, f1).
         andThen (read_metadata_blocks (self0\<lparr>fileobj := f1\<rparr>)) (\<lambda>self1.
         let (sync, f2) = bio_read (fileobj self1) 2;
             self2 = self1\<lparr>fileobj := f2\<rparr>
         in if sync \<noteq> [0xFF, 0xF8] \<and> sync \<noteq> [0xFF, 0xF9] then Inl FLACNoHeaderError
            else (case metadata_blocks self2 of
                    [] \<Rightarrow> Inl FLACNoHeaderError
                  | b # bs \<Rightarrow> if has_length b then Inr self2 else Inl FLACNoHeaderError))))"

text \<open>\<open>InterpolatedFLAC(filedata)\<close>: the constructor of the tag library calls \<open>load\<close>.\<close>

definition InterpolatedFLAC :: "bytes \<Rightarrow> error + flac" where
  "InterpolatedFLAC data = load data"

text \<open>\<open>__find_audio_offset\<close>: skip blocks up to and including the one flagged last.\<close>

function find_audio_offset :: "bytesio \<Rightarrow> error + (nat \<times> bytesio)" where
  "find_audio_offset f =
     (let (b1, f1) = bio_read f 1
      in case b1 of
           [byte] \<Rightarrow>
             (let (b3, f2) = bio_read f1 3;
                  (skipped, f3) = bio_read f2 (to_int_be b3)
              in if drop_bit 7 byte AND 1 \<noteq> 0 then Inr (pos f3, f3)
                 else find_audio_offset f3)
         | _ \<Rightarrow> Inl TypeError)"
  by pat_completeness auto
termination
proof (relation "measure (\<lambda>f. length (buf f) - pos f)", goal_cases)
  case 1
  show ?case by simp
next
  case (2 f x b1 f1 byte bs x2 b3 f2 x3 skipped f3)
  from 2 have r1: "bio_read f 1 = ([byte], f1)" by simp
  from 2 have r2: "bio_read f1 3 = (b3, f2)" by simp
  from 2 have r3: "bio_read f2 (to_int_be b3) = (skipped, f3)" by simp
  from r1 have t: "take 1 (drop (pos f) (buf f)) = [byte]"
    by (simp add: bio_read_def Let_def)
  then have "drop (pos f) (buf f) \<noteq> []" by auto
  then have lt: "pos f < length (buf f)" by simp
  from t have "length (take 1 (drop (pos f) (buf f))) = 1" by simp
  with r1 have p1: "pos f1 = pos f + 1" "buf f1 = buf f"
    by (auto simp: bio_read_def Let_def simp del: length_take length_drop)
  from r2 have p2: "pos f1 \<le> pos f2" "buf f2 = buf f1" by (auto simp: bio_read_def Let_def)
  from r3 have p3: "pos f2 \<le> pos f3" "buf f3 = buf f2" by (auto simp: bio_read_def Let_def)
  from lt p1 p2 p3 show ?case by simp
qed

text \<open>
  The padding fit of \<open>get_header\<close> (the two branches on \<open>len(data)\<close> against
  \<open>available\<close>) and the serialisation in front of it. When the data is too long and
  the padding cannot absorb the excess (\<open>newlength\<close> not positive), nothing is changed
  and the long data is kept. The result is the data and the block list.
\<close>

definition set_padding :: "block list \<Rightarrow> nat \<Rightarrow> error + (bytes \<times> block list)" where
  "set_padding blocks newlength =
     (let blocks1 = butlast blocks @ [Padding newlength]
      in andThen (writeblocks blocks1) (\<lambda>data. Inr (data, blocks1)))"

definition fit_padding :: "block list \<Rightarrow> bytes \<Rightarrow> int \<Rightarrow> error + (bytes \<times> block list)" where
  "fit_padding blocks data available =
     (if int (length data) > available then
        (if blocks = [] then Inl IndexError
         else if \<not> has_length (last blocks) then Inl AttributeError
         else (let newlength = int (padding_length (last blocks)) - (int (length data) - available)
               in if newlength > 0 then
                    andThen (set_padding blocks (nat newlength)) (\<lambda>(data1, blocks1).
                      if int (length data1) = available then Inr (data1, blocks1)
                      else Inl AssertionError)
                  else Inr (data, blocks)))
      else if int (length data) < available then
        (if blocks = [] then Inl IndexError
         else if \<not> has_length (last blocks) then Inl AttributeError
         else andThen (set_padding blocks
                        (padding_length (last blocks) + nat (available - int (length data))))
                (\<lambda>(data1, blocks1).
                   if int (length data1) = available then Inr (data1, blocks1)
                   else Inl AssertionError))
      else Inr (data, blocks))"

definition fit_blocks :: "block list \<Rightarrow> int \<Rightarrow> error + (bytes \<times> block list)" where
  "fit_blocks blocks available =
     andThen (writeblocks blocks) (\<lambda>data. fit_padding blocks data available)"

text \<open>
  \<open>get_header\<close>. \<open>header\<close> is what \<open>__check_header\<close> returned; subtracting \<open>None\<close> from
  the audio offset is a TypeError. The result is the header or the exception, and the
  object as the call leaves it.
\<close>

definition get_header :: "flac \<Rightarrow> (error + bytes) \<times> flac" where
  "get_header self =
     (let f0 = bio_seek (fileobj self) 0;
          blocks = group_padding (metadata_blocks self @ [Padding 1020]);
          self1 = self\<lparr>fileobj := f0, metadata_blocks := blocks\<rparr>
      in case check_header f0 of
           Inl e \<Rightarrow> (Inl e, self1)
         | Inr (header, f1) \<Rightarrow>
             (case find_audio_offset f1 of
                Inl e \<Rightarrow> (Inl e, self1)
              | Inr (audio_offset, f2) \<Rightarrow>
                  (let self2 = self1\<lparr>fileobj := f2\<rparr>
                   in case header of
                        None \<Rightarrow> (Inl TypeError, self2)
                      | Some h \<Rightarrow>
                          (case fit_blocks blocks (int audio_offset - int h) of
                             Inl e \<Rightarrow> (Inl e, self2)
                           | Inr (data, blocks1) \<Rightarrow>
                               (Inr (fLaC @ data),
                                self2\<lparr>metadata_blocks := blocks1,
                                       offset := Some (length (fLaC @ data))\<rparr>)))))"

section \<open>Virtual file composer: \<open>FileHandler\<close>\<close>

text \<open>
  What the program takes from the tag library and cannot be read off this repository:
  \<open>tag_get inf key\<close> is \<open>str(inf[key][0]).encode('utf-8')\<close> (a KeyError when the tag
  is absent), \<open>tag_set inf key value\<close> is \<open>inf[key] = value\<close>, and \<open>is_IOError e\<close>
  says whether the exception \<open>e\<close> is an instance of IOError, which for the library's
  own exceptions depends on its version.
\<close>

record mutagen =
  tag_get :: "flac \<Rightarrow> string \<Rightarrow> error + string"
  tag_set :: "flac \<Rightarrow> string \<Rightarrow> string \<Rightarrow> flac"
  is_IOError :: "error \<Rightarrow> bool"

text \<open>
  The attributes of a \<open>FileHandler\<close> once \<open>__init__\<close> has finished. \<open>inf\<close> and \<open>header\<close>
  are assigned in the flac branch only: \<open>None\<close> is the attribute that does not exist.
  The library \<open>lib\<close> is shared with the rest of the program and is passed beside the
  handler: a map from item identifiers to the stored items.
\<close>

record handler =
  fh_path :: string
  fh_item :: item
  real_path :: string
  instance_count :: nat
  format :: string
  inf :: "flac option"
  header :: "bytes option"
  bound :: int
  music_offset :: nat
  music_data :: bytes

text \<open>\<open>xs[i]\<close>: IndexError out of range.\<close>

definition py_index :: "'a list \<Rightarrow> int \<Rightarrow> error + 'a" where
  "py_index xs i =
     (let n = int (length xs); j = (if i < 0 then i + n else i)
      in if 0 \<le> j \<and> j < n then Inr (xs ! nat j) else Inl IndexError)"

text \<open>
  The lookup of the item, at the head of \<open>__init__\<close>:
  \<open>lib.get_item(id=directory_structure.getnode(pathsplit[0:structure_depth-1])
  .files[pathsplit[structure_depth-1]])\<close>. The slice is a new list, so \<open>getnode\<close>
  consumes a copy. An identifier the library does not have gives \<open>None\<close>, and
  \<open>self.item.path\<close> is then an AttributeError.
\<close>

definition lookup_item :: "FSNode \<Rightarrow> nat \<Rightarrow> (nat \<rightharpoonup> item) \<Rightarrow> string \<Rightarrow> error + item" where
  "lookup_item tree structure_depth lib p =
     (let pathsplit = split CHR ''/'' (drop 1 p)
      in andThen (snd (getnode (py_slice pathsplit 0 (int structure_depth - 1)) tree)) (\<lambda>node.
         andThen (py_index pathsplit (int structure_depth - 1)) (\<lambda>name.
         andThen (getitem (map_of (files node)) name) (\<lambda>ident.
           case lib ident of None \<Rightarrow> Inl AttributeError | Some it \<Rightarrow> Inr it))))"

text \<open>
  The branch on the format in \<open>__init__\<close>: what it assigns to \<open>inf\<close>, \<open>header\<close>,
  \<open>bound\<close> and \<open>music_offset\<close>. For a format other than flac and mp3 no branch is
  taken, \<open>bound\<close> and \<open>music_offset\<close> stay unassigned (\<open>None\<close>).
\<close>

definition init_bounds ::
  "mutagen \<Rightarrow> item \<Rightarrow> string \<Rightarrow> bytes
     \<Rightarrow> error + (flac option \<times> bytes option \<times> int option \<times> nat option)" where
  "init_bounds M it fmt contents =
     (if fmt = ''flac'' then
        andThen (InterpolatedFLAC contents) (\<lambda>inf0.
          let inf1 = tag_set M inf0 ''title'' (title it);
              inf2 = tag_set M inf1 ''album'' (album it);
              inf3 = tag_set M inf2 ''artist'' (artist it);
              inf4 = tag_set M inf3 ''genre'' (genre it)
          in case get_header inf4 of
               (Inl e, inf5) \<Rightarrow> Inl e
             | (Inr hdr, inf5) \<Rightarrow>
                 (case offset inf5 of
                    None \<Rightarrow> Inl AttributeError
                  | Some off \<Rightarrow> Inr (Some inf5, Some hdr, Some (int (length hdr)), Some off)))
      else if fmt = ''mp3'' then Inr (None, None, Some 0, Some 0)
      else Inr (None, None, None, None))"

definition FileHandler_init ::
  "mutagen \<Rightarrow> FSNode \<Rightarrow> nat \<Rightarrow> (nat \<rightharpoonup> item) \<Rightarrow> (string \<rightharpoonup> bytes) \<Rightarrow> string
     \<Rightarrow> error + handler" where
  "FileHandler_init M tree structure_depth lib disk p =
     andThen (lookup_item tree structure_depth lib p) (\<lambda>it.
       case disk (path it) of
         None \<Rightarrow> Inl IOError
       | Some contents \<Rightarrow>
           (let fmt = lower (drop 1 (splitext_ext p))
            in andThen (init_bounds M it fmt contents) (\<lambda>(inf1, header1, bound1, music_offset1).
                 case music_offset1 of
                   None \<Rightarrow> Inl AttributeError
                 | Some off \<Rightarrow>
                     (case bound1 of
                        None \<Rightarrow> Inl AttributeError
                      | Some b \<Rightarrow>
                          Inr \<lparr>fh_path = p, fh_item = it, real_path = path it,
                               instance_count = 1, format = fmt, inf = inf1,
                               header = header1, bound = b, music_offset = off,
                               music_data = drop off contents\<rparr>))))"

text \<open>\<open>open\<close> and \<open>release\<close> of the handler.\<close>

definition fh_open :: "handler \<Rightarrow> handler" where
  "fh_open self = self\<lparr>instance_count := instance_count self + 1\<rparr>"

definition fh_release :: "handler \<Rightarrow> handler \<times> bool" where
  "fh_release self =
     (if instance_count self > 0 then (self\<lparr>instance_count := instance_count self - 1\<rparr>, False)
      else (self, True))"

text \<open>\<open>read(size, offset)\<close>. \<open>len(self.header)\<close> needs the attribute \<open>header\<close>.\<close>

definition fh_read :: "handler \<Rightarrow> int \<Rightarrow> int \<Rightarrow> error + bytes" where
  "fh_read self sz offs =
     (if offs < bound self then
        (case header self of
           None \<Rightarrow> Inl AttributeError
         | Some hdr \<Rightarrow>
             if offs + sz < int (length hdr) then Inr (py_slice hdr offs (offs + sz))
             else Inr (py_slice hdr offs (int (length hdr))
                       @ py_slice (music_data self) 0 (sz - (int (length hdr) - offs))))
      else
        (case header self of
           None \<Rightarrow> Inl AttributeError
         | Some hdr \<Rightarrow>
             Inr (py_slice (music_data self) (offs - int (length hdr))
                    (offs - int (length hdr) + sz))))"

text \<open>
  \<open>write(offset, buf)\<close>. The body of the \<open>try\<close> statement, with the constructor
  \<open>decode\<close> and the encoder \<open>encode\<close> it calls as arguments: the handler and the
  library as the exception or the \<open>return\<close> leaves them, and the exception or the
  number returned.
\<close>

definition write_try ::
  "(bytes \<Rightarrow> error + flac) \<Rightarrow> (flac \<Rightarrow> (error + bytes) \<times> flac) \<Rightarrow> mutagen
     \<Rightarrow> handler \<Rightarrow> (nat \<rightharpoonup> item) \<Rightarrow> bytes \<Rightarrow> bytes
     \<Rightarrow> (handler \<times> (nat \<rightharpoonup> item)) \<times> (error + nat)" where
  "write_try decode encode M self lib data wbuf =
     (case decode data of
        Inl e \<Rightarrow> ((self, lib), Inl e)
      | Inr inf0 \<Rightarrow>
     let s0 = self\<lparr>inf := Some inf0\<rparr> in
     case tag_get M inf0 ''title'' of
        Inl e \<Rightarrow> ((s0, lib), Inl e)
      | Inr v1 \<Rightarrow>
     let s1 = s0\<lparr>fh_item := (fh_item s0)\<lparr>title := v1\<rparr>\<rparr> in
     case tag_get M inf0 ''album'' of
        Inl e \<Rightarrow> ((s1, lib), Inl e)
      | Inr v2 \<Rightarrow>
     let s2 = s1\<lparr>fh_item := (fh_item s1)\<lparr>album := v2\<rparr>\<rparr> in
     case tag_get M inf0 ''artist'' of
        Inl e \<Rightarrow> ((s2, lib), Inl e)
      | Inr v3 \<Rightarrow>
     let s3 = s2\<lparr>fh_item := (fh_item s2)\<lparr>artist := v3\<rparr>\<rparr> in
     case tag_get M inf0 ''genre'' of
        Inl e \<Rightarrow> ((s3, lib), Inl e)
      | Inr v4 \<Rightarrow>
     let s4 = s3\<lparr>fh_item := (fh_item s3)\<lparr>genre := v4\<rparr>\<rparr>;
         lib1 = lib(item_id (fh_item s4) \<mapsto> fh_item s4);
         inf1 = tag_set M inf0 ''title'' (title (fh_item s4));
         inf2 = tag_set M inf1 ''album'' (album (fh_item s4));
         inf3 = tag_set M inf2 ''artist'' (artist (fh_item s4));
         inf4 = tag_set M inf3 ''genre'' (genre (fh_item s4))
     in case encode inf4 of
          (Inl e, inf5) \<Rightarrow> ((s4\<lparr>inf := Some inf5\<rparr>, lib1), Inl e)
        | (Inr hdr, inf5) \<Rightarrow>
            (case offset inf5 of
               None \<Rightarrow>
                 ((s4\<lparr>inf := Some inf5, header := Some hdr, bound := int (length hdr)\<rparr>, lib1),
                  Inl AttributeError)
             | Some off \<Rightarrow>
                 ((s4\<lparr>inf := Some inf5, header := Some hdr, bound := int (length hdr),
                       music_offset := off\<rparr>, lib1),
                  Inr (length wbuf))))"

text \<open>
  The result of \<open>write\<close> is the exception, or \<open>None\<close> when the function ends without a
  \<open>return\<close>, or the number returned.
\<close>

definition write_with ::
  "(bytes \<Rightarrow> error + flac) \<Rightarrow> (flac \<Rightarrow> (error + bytes) \<times> flac) \<Rightarrow> mutagen
     \<Rightarrow> handler \<Rightarrow> (nat \<rightharpoonup> item) \<Rightarrow> int \<Rightarrow> bytes
     \<Rightarrow> (handler \<times> (nat \<rightharpoonup> item)) \<times> (error + nat option)" where
  "write_with decode encode M self lib offs wbuf =
     (if offs < bound self then
        (case header self of
           None \<Rightarrow> ((self, lib), Inl AttributeError)
         | Some hdr \<Rightarrow>
             (let data = hdr @ music_data self;
                  data2 = py_slice data 0 offs @ wbuf
                            @ py_slice_from data (offs + int (length wbuf))
              in if format self = ''flac'' then
                   (case write_try decode encode M self lib data2 wbuf of
                      (s, Inl e) \<Rightarrow> if is_IOError M e then (s, Inr None) else (s, Inl e)
                    | (s, Inr n) \<Rightarrow> (s, Inr (Some n)))
                 else ((self, lib), Inr None)))
      else ((self, lib), Inr None))"

text \<open>\<open>FileHandler.write\<close>.\<close>

definition fh_write ::
  "mutagen \<Rightarrow> handler \<Rightarrow> (nat \<rightharpoonup> item) \<Rightarrow> int \<Rightarrow> bytes
     \<Rightarrow> (handler \<times> (nat \<rightharpoonup> item)) \<times> (error + nat option)" where
  "fh_write M self lib offs wbuf = write_with InterpolatedFLAC get_header M self lib offs wbuf"

text \<open>
  \<open>beetFileSystem.open\<close>. \<open>self.files\<close> is \<open>None\<close> at first and is then set to the dict
  \<open>{"x": "y"}\<close>; its other entries are handlers. Every exception is caught and
  \<open>-errno.EACCES\<close> is returned. The result is \<open>self.files\<close> after the call and the
  handler or the error number.
\<close>

datatype entry = Placeholder | Handle handler

definition EACCES :: int where
  "EACCES = 13"

definition fs_open ::
  "mutagen \<Rightarrow> FSNode \<Rightarrow> nat \<Rightarrow> (nat \<rightharpoonup> item) \<Rightarrow> (string \<rightharpoonup> bytes)
     \<Rightarrow> (string \<rightharpoonup> entry) option \<Rightarrow> string \<Rightarrow> (string \<rightharpoonup> entry) option \<times> (int + handler)" where
  "fs_open M tree structure_depth lib disk fs p =
     (let fs1 = (case fs of None \<Rightarrow> [''x'' \<mapsto> Placeholder] | Some d \<Rightarrow> d)
      in case fs1 p of
           Some Placeholder \<Rightarrow> (Some fs1, Inl (- EACCES))
         | Some (Handle h) \<Rightarrow> (Some (fs1(p \<mapsto> Handle (fh_open h))), Inr (fh_open h))
         | None \<Rightarrow>
             (case FileHandler_init M tree structure_depth lib disk p of
                Inl e \<Rightarrow> (Some fs1, Inl (- EACCES))
              | Inr h \<Rightarrow> (Some (fs1(p \<mapsto> Handle h)), Inr h)))"

text \<open>An item, a tree and a tree with one album, for the concrete instances below.\<close>

definition item0 :: item where
  "item0 = \<lparr>item_id = 7, path = ''/music/a.flac'', item_length = ''1.5'', bitrate = 320,
     title = ''T'', artist = ''A'', album = ''B'', genre = ''G'', composer = [], grouping = [],
     year = 2001, month = 1, day = 2, track = 1, tracktotal = 9, disc = 1, disctotal = 1,
     lyrics = [], comments = [], bpm = 0, item_comp = False\<rparr>"

definition tree0 :: FSNode where
  "tree0 = FSNode [(''A'', FSNode [] [])] []"

definition tree1 :: FSNode where
  "tree1 = FSNode [(''A'', FSNode [(''B (2001) [FLAC]'', FSNode [] [(''01 - A - T.flac'', 7)])] [])] []"

text \<open>
  A Format A stream: the magic, one stream-information block of 34 bytes flagged as
  the last block, and the first bytes of an audio frame.
\<close>

definition flac_file :: bytes where
  "flac_file = fLaC @ [0x80, 0, 0, 0x22] @ replicate 34 0 @ [0xFF, 0xF8, 0x11, 0x22]"

text \<open>
  A tag library with no tags and IOError alone caught, one whose tags all read
  \<open>x\<close>, a decoder and an encoder that succeed, an open flac handler with a header of
  four bytes and three bytes of audio, and a library, a tree and a disk with one
  mp3 item.
\<close>

definition mutagen0 :: mutagen where
  "mutagen0 = \<lparr>tag_get = (\<lambda>i k. Inl KeyError), tag_set = (\<lambda>i k v. i),
                is_IOError = (\<lambda>e. e = IOError)\<rparr>"

definition mutagen1 :: mutagen where
  "mutagen1 = \<lparr>tag_get = (\<lambda>i k. Inr ''x''), tag_set = (\<lambda>i k v. i),
                is_IOError = (\<lambda>e. e = IOError)\<rparr>"

text \<open>
  A Format A stream with room in it: the magic, the stream information, a padding
  block of 8 bytes flagged as the last block (50 bytes of blocks in all, the audio at
  offset 54), and the object that holds its two blocks.
\<close>

definition padded_file :: bytes where
  "padded_file = fLaC @ [0x00, 0, 0, 0x22] @ replicate 34 0 @ [0x81, 0, 0, 8] @ replicate 8 0
                   @ [0xFF, 0xF8, 0x11, 0x22]"

definition flac_padded :: flac where
  "flac_padded = \<lparr>metadata_blocks = [StreamInfo (replicate 34 0), Padding 8], tags = None,
     cuesheet = None, seektable = None, filedata = padded_file,
     fileobj = \<lparr>buf = padded_file, pos = 56\<rparr>, offset = None\<rparr>"

definition flac0 :: flac where
  "flac0 = \<lparr>metadata_blocks = [StreamInfo (replicate 34 0)], tags = None, cuesheet = None,
             seektable = None, filedata = flac_file, fileobj = \<lparr>buf = flac_file, pos = 0\<rparr>,
             offset = None\<rparr>"

definition decode1 :: "bytes \<Rightarrow> error + flac" where
  "decode1 data = Inr flac0"

definition encode1 :: "flac \<Rightarrow> (error + bytes) \<times> flac" where
  "encode1 i = (Inr [1, 2, 3, 4], i\<lparr>offset := Some 4\<rparr>)"

definition handler0 :: handler where
  "handler0 = \<lparr>fh_path = ''/A/B (2001) [FLAC]/01 - A - T.flac'', fh_item = item0,
     real_path = ''/music/a.flac'', instance_count = 1, format = ''flac'', inf = None,
     header = Some [1, 2, 3, 4], bound = 4, music_offset = 4, music_data = [5, 6, 7]\<rparr>"

definition lib0 :: "nat \<rightharpoonup> item" where
  "lib0 = [7 \<mapsto> item0]"

definition item_mp3 :: item where
  "item_mp3 = item0\<lparr>path := ''/music/a.mp3''\<rparr>"

definition lib_mp3 :: "nat \<rightharpoonup> item" where
  "lib_mp3 = [7 \<mapsto> item_mp3]"

definition tree_mp3 :: FSNode where
  "tree_mp3 = FSNode [(''A'', FSNode [(''B (2001) [MP3]'', FSNode [] [(''01 - A - T.mp3'', 7), (''01 - A - T.ogg'', 7)])] [])] []"

definition disk_mp3 :: "string \<rightharpoonup> bytes" where
  "disk_mp3 = [''/music/a.mp3'' \<mapsto> [0xFF, 0xFB, 0x90, 0x00]]"

definition vpath_mp3 :: string where
  "vpath_mp3 = ''/A/B (2001) [MP3]/01 - A - T.mp3''"

definition vpath_ogg :: string where
  "vpath_ogg = ''/A/B (2001) [MP3]/01 - A - T.ogg''"

definition disk_flac :: "string \<rightharpoonup> bytes" where
  "disk_flac = [''/music/a.flac'' \<mapsto> flac_file]"

definition vpath_flac :: string where
  "vpath_flac = ''/A/B (2001) [FLAC]/01 - A - T.flac''"

section \<open>Properties of the path template resolver\<close>

lemma digits_nonempty: "digits n \<noteq> []"
  by (subst digits.simps) simp

lemma digit_char_zero: "n < 10 \<Longrightarrow> (digit_char n = CHR ''0'') = (n = 0)"
proof -
  assume "n < 10"
  then consider "n = 0" | "n = 1" | "n = 2" | "n = 3" | "n = 4"
    | "n = 5" | "n = 6" | "n = 7" | "n = 8" | "n = 9"
    by atomize_elim arith
  then show ?thesis by cases (simp_all add: digit_char_def)
qed

lemma digits_zero: "(digits n = ''0'') = (n = 0)"
proof (cases "n < 10")
  case True
  then show ?thesis by (subst digits.simps) (simp add: digit_char_zero)
next
  case False
  have "digits (n div 10) \<noteq> []" by (rule digits_nonempty)
  with False show ?thesis by (subst digits.simps) (auto simp: append_eq_Cons_conv)
qed

lemma str_int_zero: "(str_int i = ''0'') = (i = 0)"
  by (auto simp: str_int_def digits_zero)

lemma re_sub_path_Nil: "(re_sub_path s = []) = (s = [])"
  by (cases s) simp_all




lemma mapping_loop_result:
  "\<exists>m. mapping_loop it METADATA_KEYS Map.empty = Inr m
     \<and> m ''artist'' = Some (re_sub_path (artist it))
     \<and> m ''album'' = Some (re_sub_path (album it))
     \<and> m ''title'' = Some (re_sub_path (title it))
     \<and> m ''year'' = Some (str_int (year it))
     \<and> m ''genre'' = Some (re_sub_path (genre it))
     \<and> m ''composer'' = Some (re_sub_path (composer it))
     \<and> m ''grouping'' = Some (re_sub_path (grouping it))
     \<and> m ''lyrics'' = Some (re_sub_path (lyrics it))
     \<and> m ''comments'' = Some (re_sub_path (comments it))
     \<and> m ''track'' = Some (fmt_02i (track it))
     \<and> m ''tracktotal'' = Some (fmt_02i (tracktotal it))
     \<and> m ''disc'' = Some (fmt_02i (disc it))
     \<and> m ''disctotal'' = Some (fmt_02i (disctotal it))"
  by (simp add: METADATA_KEYS_def METADATA_FIELDS_def METADATA_RW_FIELDS_def
      andThen_def getattr_def sanitize_def)

lemma fix_dud_lookup:
  "m key = Some v \<Longrightarrow>
   \<exists>m'. fix_dud key dud repl m = Inr m' \<and> m' key = Some (if v = dud then repl else v)
     \<and> (\<forall>k. k \<noteq> key \<longrightarrow> m' k = m k)"
  by (simp add: fix_dud_def andThen_def getitem_def)


lemma template_mapping_lookup:
  "\<exists>m. template_mapping it = Inr m
     \<and> m ''artist'' = Some (if artist it = [] then ''Unknown Artist'' else re_sub_path (artist it))
     \<and> m ''album'' = Some (if album it = [] then ''Unknown Album'' else re_sub_path (album it))
     \<and> m ''title'' = Some (if title it = [] then ''Unknown Track'' else re_sub_path (title it))
     \<and> m ''year'' = Some (if year it = 0 then ''Unknown Year'' else str_int (year it))
     \<and> m ''genre'' = Some (re_sub_path (genre it))
     \<and> m ''composer'' = Some (re_sub_path (composer it))
     \<and> m ''grouping'' = Some (re_sub_path (grouping it))
     \<and> m ''lyrics'' = Some (re_sub_path (lyrics it))
     \<and> m ''comments'' = Some (re_sub_path (comments it))
     \<and> m ''track'' = Some (fmt_02i (track it))
     \<and> m ''tracktotal'' = Some (fmt_02i (tracktotal it))
     \<and> m ''disc'' = Some (fmt_02i (disc it))
     \<and> m ''disctotal'' = Some (fmt_02i (disctotal it))
     \<and> m ''format'' = Some (re_sub_path (drop 1 (splitext_ext (path it))))
     \<and> m ''format_upper'' = Some (upper (re_sub_path (drop 1 (splitext_ext (path it)))))"
proof -
  obtain m0 where m0: "mapping_loop it METADATA_KEYS Map.empty = Inr m0"
    and l0: "m0 ''artist'' = Some (re_sub_path (artist it))"
      "m0 ''album'' = Some (re_sub_path (album it))"
      "m0 ''title'' = Some (re_sub_path (title it))"
      "m0 ''year'' = Some (str_int (year it))"
      "m0 ''genre'' = Some (re_sub_path (genre it))"
      "m0 ''composer'' = Some (re_sub_path (composer it))"
      "m0 ''grouping'' = Some (re_sub_path (grouping it))"
      "m0 ''lyrics'' = Some (re_sub_path (lyrics it))"
      "m0 ''comments'' = Some (re_sub_path (comments it))"
      "m0 ''track'' = Some (fmt_02i (track it))"
      "m0 ''tracktotal'' = Some (fmt_02i (tracktotal it))"
      "m0 ''disc'' = Some (fmt_02i (disc it))"
      "m0 ''disctotal'' = Some (fmt_02i (disctotal it))"
    using mapping_loop_result [of it] by blast
  define fmt where "fmt = re_sub_path (drop 1 (splitext_ext (path it)))"
  define m2 where "m2 = m0(''format'' \<mapsto> fmt, ''format_upper'' \<mapsto> upper fmt)"
  have l2: "m2 ''artist'' = Some (re_sub_path (artist it))"
      "m2 ''album'' = Some (re_sub_path (album it))"
      "m2 ''title'' = Some (re_sub_path (title it))"
      "m2 ''year'' = Some (str_int (year it))"
      "m2 ''genre'' = Some (re_sub_path (genre it))"
      "m2 ''composer'' = Some (re_sub_path (composer it))"
      "m2 ''grouping'' = Some (re_sub_path (grouping it))"
      "m2 ''lyrics'' = Some (re_sub_path (lyrics it))"
      "m2 ''comments'' = Some (re_sub_path (comments it))"
      "m2 ''track'' = Some (fmt_02i (track it))"
      "m2 ''tracktotal'' = Some (fmt_02i (tracktotal it))"
      "m2 ''disc'' = Some (fmt_02i (disc it))"
      "m2 ''disctotal'' = Some (fmt_02i (disctotal it))"
      "m2 ''format'' = Some fmt"
      "m2 ''format_upper'' = Some (upper fmt)"
    using l0 by (simp_all add: m2_def)
  obtain m3 where m3: "fix_dud ''artist'' [] ''Unknown Artist'' m2 = Inr m3"
    and a3: "m3 ''artist'' = Some (if re_sub_path (artist it) = [] then ''Unknown Artist'' else re_sub_path (artist it))"
    and o3: "\<forall>k. k \<noteq> ''artist'' \<longrightarrow> m3 k = m2 k"
    using fix_dud_lookup [of m2 "''artist''" "re_sub_path (artist it)" "[]" "''Unknown Artist''"] l2(1)
    by blast
  have "m3 ''album'' = Some (re_sub_path (album it))" using o3 l2(2) by simp
  with fix_dud_lookup [of m3 "''album''" "re_sub_path (album it)" "[]" "''Unknown Album''"] obtain m4 where m4: "fix_dud ''album'' [] ''Unknown Album'' m3 = Inr m4"
    and a4: "m4 ''album'' = Some (if re_sub_path (album it) = [] then ''Unknown Album'' else re_sub_path (album it))"
    and o4: "\<forall>k. k \<noteq> ''album'' \<longrightarrow> m4 k = m3 k"
    by blast
  have "m4 ''year'' = Some (str_int (year it))" using o4 o3 l2(4) by simp
  with fix_dud_lookup [of m4 "''year''" "str_int (year it)" "''0''" "''Unknown Year''"] obtain m5 where m5: "fix_dud ''year'' ''0'' ''Unknown Year'' m4 = Inr m5"
    and a5: "m5 ''year'' = Some (if str_int (year it) = ''0'' then ''Unknown Year'' else str_int (year it))"
    and o5: "\<forall>k. k \<noteq> ''year'' \<longrightarrow> m5 k = m4 k"
    by blast
  have "m5 ''title'' = Some (re_sub_path (title it))" using o5 o4 o3 l2(3) by simp
  with fix_dud_lookup [of m5 "''title''" "re_sub_path (title it)" "[]" "''Unknown Track''"] obtain m6 where m6: "fix_dud ''title'' [] ''Unknown Track'' m5 = Inr m6"
    and a6: "m6 ''title'' = Some (if re_sub_path (title it) = [] then ''Unknown Track'' else re_sub_path (title it))"
    and o6: "\<forall>k. k \<noteq> ''title'' \<longrightarrow> m6 k = m5 k"
    by blast
  have tm: "template_mapping it = Inr m6"
    using m0 m3 m4 m5 m6
    by (simp add: template_mapping_def andThen_def Let_def m2_def fmt_def)
  have "m6 ''artist'' = m3 ''artist''" "m6 ''album'' = m4 ''album''" "m6 ''year'' = m5 ''year''"
    using o6 o5 o4 by simp_all
  moreover have "\<And>k. k \<notin> {''artist'', ''album'', ''year'', ''title''} \<Longrightarrow> m6 k = m2 k"
    using o6 o5 o4 o3 by simp
  ultimately show ?thesis
    using tm a3 a4 a5 a6 l2
    by (simp add: str_int_zero re_sub_path_Nil fmt_def)
qed

section \<open>Properties of the directory tree index\<close>

lemma getnode_left: "getnode els root = (left, Inr n) \<Longrightarrow> left = []"
  by (induction els arbitrary: root) (auto split: option.splits)

lemma rebound_iff: "(length els = Suc 0 \<and> els ! 0 = []) = (els = [[]])"
  by (cases els) auto

lemma adddir_left:
  "adddir els d root = (left, Inr r) \<Longrightarrow> left = (if els = [[]] then els else [])"
  by (auto simp: adddir_def rebound_iff Let_def split: prod.splits sum.splits if_splits dest: getnode_left)

lemma addfile_left:
  "addfile els f i root = (left, Inr r) \<Longrightarrow> left = (if els = [[]] then els else [])"
  by (auto simp: addfile_def rebound_iff Let_def split: prod.splits sum.splits if_splits dest: getnode_left)








lemma structure_split_eq:
  "structure_split = [''$artist'', ''$album ($year) [$format_upper]'', ''$track - $artist - $title.$format'']"
  by (simp add: structure_split_def PATH_FORMAT_def)

lemma substitute_PATH_FORMAT:
  assumes "m ''artist'' = Some A" "m ''album'' = Some Al" "m ''year'' = Some Y"
    "m ''format_upper'' = Some FU" "m ''track'' = Some T" "m ''title'' = Some Ti"
    "m ''format'' = Some F"
  shows "substitute_levels structure_split m =
    Inr [A, Al @ '' ('' @ Y @ '') ['' @ FU @ '']'', T @ '' - '' @ A @ '' - '' @ Ti @ ''.'' @ F]"
  using assms
  by (simp add: structure_split_eq andThen_def getitem_def is_id_start_def is_id_char_def)


lemma adddir_loop_left:
  "adddir_loop ls levels [] root = Inr (se, r) \<Longrightarrow>
   list_all (\<lambda>l. 1 \<le> l \<and> l - 1 < length ls \<longrightarrow> ls ! (l - 1) \<noteq> []) levels \<Longrightarrow> se = []"
proof (induction levels arbitrary: root)
  case Nil
  then show ?case by simp
next
  case (Cons l levels)
  show ?case
  proof (cases "1 \<le> l \<and> l - 1 < length ls")
    case True
    with Cons.prems(2) have ne: "[ls ! (l - 1)] \<noteq> [[]]" by simp
    from True have app: "(if 0 \<le> int l - 1 \<and> int l - 1 < int (length ls)
              then andThen (level_get ls (int l - 1)) (\<lambda>s. Inr ([] @ [s]))
              else Inr []) = Inr [ls ! (l - 1)]"
      by (auto simp: level_get_def andThen_def nat_diff_distrib')
    from Cons.prems(1) obtain d left root' where
      "adddir [ls ! (l - 1)] d root = (left, Inr root')" "adddir_loop ls levels left root' = Inr (se, r)"
      unfolding adddir_loop.simps app
      by (auto simp: andThen_def split: sum.splits prod.splits)
    moreover from this(1) ne have "left = []" using adddir_left by metis
    ultimately show ?thesis using Cons.IH Cons.prems(2) by simp
  next
    case False
    then have app: "(if 0 \<le> int l - 1 \<and> int l - 1 < int (length ls)
              then andThen (level_get ls (int l - 1)) (\<lambda>s. Inr ([] @ [s]))
              else Inr []) = Inr []"
      by auto
    from Cons.prems(1) obtain d left root' where
      "adddir [] d root = (left, Inr root')" "adddir_loop ls levels left root' = Inr (se, r)"
      unfolding adddir_loop.simps app
      by (auto simp: andThen_def split: sum.splits prod.splits)
    moreover from this(1) have "left = []" using adddir_left by fastforce
    ultimately show ?thesis using Cons.IH Cons.prems(2) by simp
  qed
qed


lemma template_mapping_item0:
  assumes "template_mapping item0 = Inr m"
  shows "substitute_levels structure_split m =
           Inr [''A'', ''B (2001) [FLAC]'', ''01 - A - T.flac'']"
proof -
  have y: "str_int 2001 = ''2001''" by code_simp
  have t: "fmt_02i 1 = ''01''" by code_simp
  have f: "re_sub_path (drop (Suc 0) (splitext_ext ''/music/a.flac'')) = ''flac''" by code_simp
  have u: "upper ''flac'' = ''FLAC''" by code_simp
  from template_mapping_lookup [of item0] assms
  have "m ''artist'' = Some ''A''" "m ''album'' = Some ''B''" "m ''year'' = Some ''2001''"
    "m ''format_upper'' = Some ''FLAC''" "m ''track'' = Some ''01''" "m ''title'' = Some ''T''"
    "m ''format'' = Some ''flac''"
    by (auto simp: item0_def y t f u is_path_char_def)
  from substitute_PATH_FORMAT [OF this] show ?thesis by simp
qed

lemma PATH_FORMAT_levels:
  assumes "template_mapping it = Inr m" "substitute_levels structure_split m = Inr ls"
  shows "length ls = 3 \<and> ls ! 0 \<noteq> [] \<and> ls ! 1 \<noteq> []"
proof -
  from template_mapping_lookup [of it] assms(1)
  obtain A Al Y FU T Ti F where l: "m ''artist'' = Some A" "m ''album'' = Some Al"
    "m ''year'' = Some Y" "m ''format_upper'' = Some FU" "m ''track'' = Some T"
    "m ''title'' = Some Ti" "m ''format'' = Some F"
    and A: "A = (if artist it = [] then ''Unknown Artist'' else re_sub_path (artist it))"
    by auto
  have "A \<noteq> []" by (simp add: A re_sub_path_Nil)
  with substitute_PATH_FORMAT [OF l] assms(2) show ?thesis by auto
qed




text \<open>
  Claim C9, as amended. When \<open>getnode\<close> returns, the list it was given is empty.
  When \<open>adddir\<close> or \<open>addfile\<close> returns, the list it was given is empty, unless it was
  the one-element list \<open>['']\<close>, which is left as it was. In the build loop of \<open>mount\<close>
  with \<open>PATH_FORMAT\<close>, \<open>sub_elements\<close> is empty after every \<open>adddir\<close> call (after the
  first \<open>k\<close> rounds of the loop, for every \<open>k\<close>).
\<close>

theorem getnode_consumes:
  "(getnode els root = (left, Inr n) \<longrightarrow> left = [])
   \<and> (adddir els d root = (left1, Inr r1) \<longrightarrow> left1 = (if els = [[]] then els else []))
   \<and> (addfile els f i root = (left2, Inr r2) \<longrightarrow> left2 = (if els = [[]] then els else []))
   \<and> (template_mapping it = Inr m \<and> substitute_levels structure_split m = Inr ls
        \<and> adddir_loop ls (take k [0 ..< length ls - 1]) [] root3 = Inr (se, r3) \<longrightarrow> se = [])"
proof (intro conjI impI)
  assume "getnode els root = (left, Inr n)"
  then show "left = []" by (rule getnode_left)
next
  assume "adddir els d root = (left1, Inr r1)"
  then show "left1 = (if els = [[]] then els else [])" by (rule adddir_left)
next
  assume "addfile els f i root = (left2, Inr r2)"
  then show "left2 = (if els = [[]] then els else [])" by (rule addfile_left)
next
  assume a: "template_mapping it = Inr m \<and> substitute_levels structure_split m = Inr ls
        \<and> adddir_loop ls (take k [0 ..< length ls - 1]) [] root3 = Inr (se, r3)"
  then have l: "length ls = 3" "ls ! 0 \<noteq> []" "ls ! 1 \<noteq> []"
    using PATH_FORMAT_levels [of it m ls] by simp_all
  then have "[0 ..< length ls - 1] = [0, 1]" by (simp add: upt_rec)
  then have "set (take k [0 ..< length ls - 1]) \<subseteq> {0, 1}"
    using set_take_subset [of k "[0 ..< length ls - 1]"] by simp
  then have "list_all (\<lambda>l. 1 \<le> l \<and> l - 1 < length ls \<longrightarrow> ls ! (l - 1) \<noteq> [])
      (take k [0 ..< length ls - 1])"
    using l by (auto simp: list_all_iff)
  with a show "se = []" using adddir_loop_left by blast
qed

theorem getnode_consumes_witness:
  "getnode [''A''] tree0 = ([], Inr (FSNode [] []))
   \<and> fst (adddir [''A''] ''B'' tree0) = []
   \<and> fst (addfile [''A''] ''f'' 1 tree0) = []
   \<and> (\<exists>m ls r. template_mapping item0 = Inr m \<and> substitute_levels structure_split m = Inr ls
        \<and> adddir_loop ls (take 2 [0 ..< length ls - 1]) [] (FSNode [] []) = Inr ([], r))"
proof -
  have g: "getnode [''A''] tree0 = ([], Inr (FSNode [] []))" by code_simp
  have d: "adddir [''A''] ''B'' tree0 = ([], Inr (FSNode [(''A'', FSNode [(''B'', FSNode [] [])] [])] []))"
    by code_simp
  have f: "addfile [''A''] ''f'' 1 tree0 = ([], Inr (FSNode [(''A'', FSNode [] [(''f'', 1)])] []))"
    by code_simp
  obtain m where m: "template_mapping item0 = Inr m"
    using template_mapping_lookup [of item0] by blast
  have ls: "substitute_levels structure_split m = Inr [''A'', ''B (2001) [FLAC]'', ''01 - A - T.flac'']"
    by (rule template_mapping_item0 [OF m])
  have lp: "adddir_loop [''A'', ''B (2001) [FLAC]'', ''01 - A - T.flac'']
      (take 2 [0 ..< length [''A'', ''B (2001) [FLAC]'', ''01 - A - T.flac''] - 1]) [] (FSNode [] [])
      = Inr ([], FSNode [(''A'', FSNode [(''B (2001) [FLAC]'', FSNode [] [])] [])] [])"
    by code_simp
  note t = getnode_consumes [of "[''A'']" tree0 "[]" "FSNode [] []" "''B''" "[]" _ "''f''" 1 "[]" _
      item0 m "[''A'', ''B (2001) [FLAC]'', ''01 - A - T.flac'']" 2 "FSNode [] []" "[]"]
  from t g d f m ls lp show ?thesis by auto
qed

text \<open>
  Counterexample to claim C9 as stated: \<open>adddir\<close> returns and the list \<open>['']\<close> it was
  given still holds its element.
\<close>

theorem adddir_keeps_list_counterexample:
  "adddir [[]] ''d'' (FSNode [] []) = ([[]], Inr (FSNode [(''d'', FSNode [] [])] []))"
  by code_simp

section \<open>Properties of the tag header codec\<close>

lemma read_metadata_block_raises: "\<exists>e. read_metadata_block self = Inl e"
  by (auto simp: read_metadata_block_def read_block_try_def read_block_else_def andThen_def Let_def
      split: prod.splits list.splits)

lemma read_metadata_blocks_raises: "\<exists>e. read_metadata_blocks self = Inl e"
  using read_metadata_block_raises [of self] by (subst read_metadata_blocks.simps) auto

lemma load_raises: "\<exists>e. load data = Inl e"
proof (cases "check_header \<lparr>buf = data, pos = 0\<rparr>")
  case (Inl e)
  then show ?thesis by (simp add: load_def andThen_def)
next
  case (Inr r)
  obtain h f1 where r: "r = (h, f1)" by (cases r)
  obtain e where "read_metadata_blocks (\<lparr>metadata_blocks = [], tags = None, cuesheet = None, seektable = None,
                   filedata = data, fileobj = \<lparr>buf = data, pos = 0\<rparr>, offset = None\<rparr>\<lparr>fileobj := f1\<rparr>) = Inl e"
    using read_metadata_blocks_raises by blast
  with Inr r show ?thesis by (simp add: load_def andThen_def)
qed

lemma get_header_raises: "\<exists>e. fst (get_header self) = Inl e"
  by (auto simp: get_header_def check_header_def Let_def split: prod.splits sum.splits option.splits if_splits)

lemma length_write_one: "length (write_one l b) = 4 + length (block_write b)"
  by (simp add: write_one_def be24_def)

lemma length_concat_write:
  "length (concat (map (write_one l) bs)) = sum_list (map (\<lambda>b. 4 + length (block_write b)) bs)"
  by (induction bs) (simp_all add: length_write_one)

lemma writeblocks_snoc:
  "writeblocks (front @ [b]) =
     (if list_ex (\<lambda>b. length (block_write b) > 2 ^ 24) (front @ [b]) then Inl MutagenError
      else Inr (concat (map (write_one False) front) @ write_one True b))"
  by (simp add: writeblocks_def)

lemma fit_core:
  assumes ok: "\<not> list_ex (\<lambda>b. length (block_write b) > 2 ^ 24) (front @ [Padding p])"
  defines "n \<equiv> sum_list (map (\<lambda>b. 4 + length (block_write b)) front) + 4 + p"
  shows "int n - int p < available \<Longrightarrow> available \<le> int n - int p + 2 ^ 24 \<Longrightarrow>
           \<exists>data. fit_blocks (front @ [Padding p]) available
                    = Inr (data, front @ [Padding (nat (available - (int n - int p)))])
              \<and> int (length data) = available"
    and "available \<le> int n - int p \<Longrightarrow>
           \<exists>data. fit_blocks (front @ [Padding p]) available = Inr (data, front @ [Padding p])
              \<and> length data = n"
proof -
  define data0 where "data0 = concat (map (write_one False) front) @ write_one True (Padding p)"
  have w0: "writeblocks (front @ [Padding p]) = Inr data0"
    using ok by (simp add: writeblocks_snoc data0_def)
  have l0: "length data0 = n"
    by (simp add: data0_def n_def length_concat_write length_write_one)
  have okf: "\<not> list_ex (\<lambda>b. length (block_write b) > 2 ^ 24) front"
    using ok by simp
  have sp: "\<And>q. q \<le> 2 ^ 24 \<Longrightarrow> \<exists>d. set_padding (front @ [Padding p]) q = Inr (d, front @ [Padding q])
       \<and> int (length d) = int n - int p + int q"
    using okf
    by (simp add: set_padding_def writeblocks_snoc andThen_def n_def length_concat_write length_write_one)
  {
    assume a: "int n - int p < available" "available \<le> int n - int p + 2 ^ 24"
    define q where "q = nat (available - (int n - int p))"
    have q: "0 < q" "q \<le> 2 ^ 24" "int q = available - (int n - int p)"
      using a by (simp_all add: q_def nat_le_iff)
    from sp [OF q(2)] obtain d where d: "set_padding (front @ [Padding p]) q = Inr (d, front @ [Padding q])"
      "int (length d) = int n - int p + int q" by blast
    have dl: "int (length d) = available" using d(2) q(3) by simp
    show "\<exists>data. fit_blocks (front @ [Padding p]) available
                    = Inr (data, front @ [Padding (nat (available - (int n - int p)))])
              \<and> int (length data) = available"
    proof (cases "int n > available")
      case True
      have "nat (int p - (int n - available)) = q" by (simp add: q_def)
      moreover have "int p - (int n - available) > 0" using a by simp
      ultimately show ?thesis
        using True w0 l0 d(1) dl
        by (simp add: fit_blocks_def fit_padding_def andThen_def Let_def q_def)
    next
      case False
      show ?thesis
      proof (cases "int n < available")
        case True
        have "p + nat (available - int n) = q" using True by (simp add: q_def)
        then show ?thesis
          using True False w0 l0 d(1) dl
          by (simp add: fit_blocks_def fit_padding_def andThen_def Let_def q_def)
      next
        case F2: False
        with False have e: "int n = available" by simp
        then have "q = p" by (simp add: q_def)
        then show ?thesis
          using e w0 l0
          by (simp add: fit_blocks_def fit_padding_def andThen_def Let_def q_def)
      qed
    qed
  }
  {
    assume a: "available \<le> int n - int p"
    show "\<exists>data. fit_blocks (front @ [Padding p]) available = Inr (data, front @ [Padding p])
              \<and> length data = n"
    proof (cases "int n > available")
      case True
      then show ?thesis using a w0 l0
        by (simp add: fit_blocks_def fit_padding_def andThen_def Let_def)
    next
      case False
      with a have "p = 0" "int n = available" by simp_all
      then show ?thesis using w0 l0
        by (simp add: fit_blocks_def fit_padding_def andThen_def Let_def)
    qed
  }
qed

lemma group_padding_shape:
  "\<exists>front p. group_padding (bs @ [Padding 1020]) = front @ [Padding p] \<and> 1020 \<le> p
     \<and> front = filter (\<lambda>b. \<not> is_Padding b) bs"
proof -
  have "int (sum_list (map padding_length (filter is_Padding bs))) + 1020
          + 4 * (int (length (filter is_Padding bs)) + 1 - 1) \<ge> 1020"
    by simp
  then show ?thesis
    by (simp add: group_padding_def Let_def nat_le_iff)
qed



text \<open>
  Claim C6, evaluated at a well-formed stream. \<open>flac_file\<close> has the magic, one
  stream-information block flagged as the last one and an audio frame header. The
  claim has \<open>decode\<close> classify the block and succeed; \<open>load\<close> raises
  UnboundLocalError in the first call of \<open>__read_metadata_block\<close>, before any block is
  classified.
\<close>

theorem load_flac_file: "load flac_file = Inl UnboundLocalError"
  by code_simp

text \<open>
  No byte string is decoded: \<open>load\<close> raises on every input, since every call of
  \<open>__read_metadata_block\<close> raises.
\<close>

theorem load_never_returns: "\<exists>e. load data = Inl e"
  by (rule load_raises)

text \<open>
  No header is encoded: \<open>get_header\<close> raises on every object, since the value of
  \<open>__check_header\<close> is \<open>None\<close> whenever it returns.
\<close>

theorem get_header_never_returns: "\<exists>e. fst (get_header self) = Inl e"
  by (rule get_header_raises)

text \<open>
  The stream \<open>padded_file\<close> has room for the header: \<open>__check_header\<close> computes the
  size 4, the audio starts at offset 54, and with the 50 bytes between them as the
  target the padding fit gives exactly 50 bytes, by a padding block of 8 bytes.
\<close>

lemma padded_file_offsets:
  "fst (check_header_size \<lparr>buf = padded_file, pos = 0\<rparr>) = Some 4
   \<and> (case find_audio_offset \<lparr>buf = padded_file, pos = 4\<rparr> of
          Inl e \<Rightarrow> None | Inr (audio_offset, f) \<Rightarrow> Some audio_offset) = Some 54"
  by code_simp

lemma padded_file_fits:
  "\<exists>data. fit_blocks (group_padding (metadata_blocks flac_padded @ [Padding 1020])) 50
     = Inr (data, [StreamInfo (replicate 34 0), Padding 8]) \<and> int (length data) = 50"
proof -
  have g: "group_padding (metadata_blocks flac_padded @ [Padding 1020])
        = [StreamInfo (replicate 34 0)] @ [Padding 1032]"
    by (simp add: group_padding_def flac_padded_def)
  have ok: "\<not> list_ex (\<lambda>b. length (block_write b) > 2 ^ 24)
      ([StreamInfo (replicate 34 0)] @ [Padding 1032])"
    by simp
  from fit_core(1) [OF ok, of 50] show ?thesis
    unfolding g by simp
qed

text \<open>
  Claim C2, evaluated at the object of \<open>padded_file\<close>. The claim has the encode step
  return a header that fits the target (here the magic and 50 bytes of blocks) or
  fail with HeaderTooLarge; \<open>get_header\<close> raises TypeError at
  \<open>self.__find_audio_offset(f) - header\<close>, where \<open>header\<close> is \<open>None\<close>, before any
  block is serialised.
\<close>

theorem get_header_padded_file: "fst (get_header flac_padded) = Inl TypeError"
  by code_simp

section \<open>Properties of the virtual file composer\<close>

lemma take_min_drop: "take (min b (length xs) - a) (drop a xs) = take (b - a) (drop a xs)"
proof (cases "b \<le> length xs")
  case True
  then show ?thesis by (simp add: min_def)
next
  case False
  then have "length (drop a xs) \<le> b - a" by simp
  with False show ?thesis by (simp add: min_def)
qed

lemma py_slice_nat: "py_slice xs (int a) (int b) = take (b - a) (drop a xs)"
proof (cases "a \<le> length xs")
  case True
  then show ?thesis
    using take_min_drop [of b xs a]
    by (simp add: py_slice_def slice_index_def Let_def min_absorb1)
next
  case False
  then show ?thesis by (simp add: py_slice_def slice_index_def Let_def)
qed

lemma read_header_set:
  assumes "header self = Some hdr" "bound self = int (length hdr)"
  shows "fh_read self (int sz) (int offs) = Inr (take sz (drop offs (hdr @ music_data self)))"
proof (cases "offs < length hdr")
  case True
  show ?thesis
  proof (cases "offs + sz < length hdr")
    case lt: True
    have "fh_read self (int sz) (int offs) = Inr (py_slice hdr (int offs) (int (offs + sz)))"
      using assms True lt by (simp add: fh_read_def)
    then show ?thesis using lt by (simp only: py_slice_nat) simp
  next
    case ge: False
    have e: "int sz - (int (length hdr) - int offs) = int (sz - (length hdr - offs))"
      using True ge by simp
    have r: "fh_read self (int sz) (int offs) =
        Inr (py_slice hdr (int offs) (int (length hdr))
             @ py_slice (music_data self) 0 (int sz - (int (length hdr) - int offs)))"
      using assms True ge by (simp add: fh_read_def)
    have s2: "py_slice (music_data self) 0 (int sz - (int (length hdr) - int offs))
        = take (sz - (length hdr - offs)) (music_data self)"
      using py_slice_nat [of "music_data self" 0 "sz - (length hdr - offs)"] e by simp
    show ?thesis unfolding r s2 using True ge by (simp add: py_slice_nat)
  qed
next
  case False
  then have e: "int offs - int (length hdr) = int (offs - length hdr)"
    "int offs - int (length hdr) + int sz = int (offs - length hdr + sz)"
    by simp_all
  have r: "fh_read self (int sz) (int offs) =
      Inr (py_slice (music_data self) (int offs - int (length hdr))
             (int offs - int (length hdr) + int sz))"
    using assms False by (simp add: fh_read_def)
  show ?thesis unfolding r e(2) unfolding e(1) py_slice_nat using False by simp
qed

lemma write_decode_fails:
  assumes "offs < bound self" "header self = Some hdr" "format self = ''flac''"
    and "decode (py_slice (hdr @ music_data self) 0 offs @ wbuf
                  @ py_slice_from (hdr @ music_data self) (offs + int (length wbuf))) = Inl e"
  shows "write_with decode encode M self lib offs wbuf
           = ((self, lib), if is_IOError M e then Inr None else Inl e)"
  using assms by (simp add: write_with_def write_try_def Let_def)

lemma write_try_returns:
  "write_try decode encode M self lib data wbuf = (s, Inr n) \<Longrightarrow> n = length wbuf"
  by (auto simp: write_try_def Let_def split: sum.splits prod.splits option.splits)

lemma write_returns:
  "write_with decode encode M self lib offs wbuf = (s, Inr (Some n)) \<Longrightarrow> n = length wbuf"
  by (auto simp: write_with_def Let_def split: if_splits option.splits sum.splits prod.splits
      dest: write_try_returns)

lemma init_bounds_mp3 [simp]: "init_bounds M it ''mp3'' contents = Inr (None, None, Some 0, Some 0)"
  by (simp add: init_bounds_def)

lemma init_bounds_flac: "\<exists>e. init_bounds M it ''flac'' contents = Inl e"
proof -
  obtain e where "InterpolatedFLAC contents = Inl e"
    using load_raises [of contents] by (auto simp: InterpolatedFLAC_def)
  then show ?thesis by (simp add: init_bounds_def andThen_def)
qed

lemma init_format:
  assumes "FileHandler_init M tree d lib disk p = Inr h"
  shows "format h = lower (drop 1 (splitext_ext p)) \<and> (format h = ''flac'' \<or> format h = ''mp3'')"
  using assms
  by (auto simp: FileHandler_init_def andThen_def init_bounds_def Let_def
      split: sum.splits option.splits if_splits prod.splits)

lemma init_other:
  assumes "lower (drop 1 (splitext_ext p)) \<noteq> ''flac''" "lower (drop 1 (splitext_ext p)) \<noteq> ''mp3''"
  shows "\<exists>e. FileHandler_init M tree d lib disk p = Inl e"
  using assms
  by (auto simp: FileHandler_init_def andThen_def init_bounds_def Let_def
      split: sum.splits option.splits if_splits prod.splits)

lemma init_mp3:
  assumes "FileHandler_init M tree d lib disk p = Inr h" "format h = ''mp3''"
  shows "header h = None \<and> bound h = 0 \<and> fh_read h sz offs = Inl AttributeError"
  using assms
  by (auto simp: FileHandler_init_def andThen_def init_bounds_def Let_def fh_read_def
      split: sum.splits option.splits if_splits prod.splits)


text \<open>
  Claim C1. For a handler whose \<open>header\<close> is set and whose \<open>bound\<close> is its length (what
  the flac branch of \<open>__init__\<close> assigns), and all sizes and offsets that are not
  negative: a read that ends within the header returns that part of the header, a
  read across the boundary returns the rest of the header followed by the first
  bytes of the audio data, a read at or after the boundary returns the audio data at
  the offset less the boundary; in every case the bytes are those of the header
  followed by the audio data, from \<open>offs\<close>, at most \<open>sz\<close> of them.
\<close>

theorem read_splice:
  assumes "header self = Some hdr" "bound self = int (length hdr)"
  shows "(offs + sz \<le> length hdr \<longrightarrow>
            fh_read self (int sz) (int offs) = Inr (take sz (drop offs hdr)))
       \<and> (offs < length hdr \<and> length hdr < offs + sz \<longrightarrow>
            fh_read self (int sz) (int offs)
              = Inr (drop offs hdr @ take (sz - (length hdr - offs)) (music_data self)))
       \<and> (length hdr \<le> offs \<longrightarrow>
            fh_read self (int sz) (int offs)
              = Inr (take sz (drop (offs - length hdr) (music_data self))))
       \<and> fh_read self (int sz) (int offs) = Inr (take sz (drop offs (hdr @ music_data self)))"
  using read_header_set [OF assms, of sz offs] by auto

theorem read_splice_witness:
  "fh_read handler0 2 1 = Inr [2, 3]
   \<and> fh_read handler0 3 2 = Inr [3, 4, 5]
   \<and> fh_read handler0 2 5 = Inr [6, 7]"
proof -
  have h: "header handler0 = Some [1, 2, 3, 4]" "bound handler0 = int (length [1, 2, 3, 4 :: byte])"
    "music_data handler0 = [5, 6, 7]"
    by (simp_all add: handler0_def)
  from read_splice [OF h(1,2), of 1 2] read_splice [OF h(1,2), of 2 3] read_splice [OF h(1,2), of 5 2]
  show ?thesis by (simp add: h(3))
qed

text \<open>
  Claim C5, as amended. A write at or after the boundary is discarded: \<open>write\<close> raises
  nothing, returns \<open>None\<close> and leaves the handler and the library as they were.
\<close>

theorem write_beyond_boundary:
  "bound self \<le> offs \<Longrightarrow> fh_write M self lib offs wbuf = ((self, lib), Inr None)"
  by (simp add: fh_write_def write_with_def)

theorem write_beyond_boundary_witness:
  "bound handler0 \<le> 4 \<and> fh_write mutagen0 handler0 lib0 4 [9] = ((handler0, lib0), Inr None)"
proof -
  have b: "bound handler0 \<le> 4" by (simp add: handler0_def)
  from write_beyond_boundary [OF b] b show ?thesis by simp
qed

text \<open>
  Counterexample to claim C5 as stated: a write at offset 10, beyond the boundary 4,
  is not rejected with an error; it returns \<open>None\<close>.
\<close>

theorem write_beyond_boundary_counterexample:
  "fh_write mutagen0 handler0 lib0 10 [9] = ((handler0, lib0), Inr None)"
  by (simp add: fh_write_def write_with_def handler0_def)

lemma write_succeeds:
  assumes "offs < bound self" "header self = Some hdr" "format self = ''flac''"
    and "decode (py_slice (hdr @ music_data self) 0 offs @ wbuf
                  @ py_slice_from (hdr @ music_data self) (offs + int (length wbuf))) = Inr inf0"
    and "\<forall>k. \<exists>v. tag_get M inf0 k = Inr v"
    and "\<forall>i. \<exists>h i1 off. encode i = (Inr h, i1) \<and> offset i1 = Some off"
  shows "snd (write_with decode encode M self lib offs wbuf) = Inr (Some (length wbuf))"
proof -
  from assms(5) obtain v1 v2 v3 v4 where v: "tag_get M inf0 ''title'' = Inr v1"
    "tag_get M inf0 ''album'' = Inr v2" "tag_get M inf0 ''artist'' = Inr v3"
    "tag_get M inf0 ''genre'' = Inr v4"
    by metis
  define i4 where "i4 = tag_set M (tag_set M (tag_set M (tag_set M inf0 ''title'' v1) ''album'' v2) ''artist'' v3) ''genre'' v4"
  from assms(6) obtain h i1 off where e: "encode i4 = (Inr h, i1)" "offset i1 = Some off"
    by blast
  show ?thesis
    using assms(1-4) v e
    by (simp add: write_with_def write_try_def Let_def i4_def)
qed

text \<open>
  Claim C4. For a write below the boundary of a flac handler, with \<open>decode\<close> for the
  constructor \<open>InterpolatedFLAC\<close> and \<open>encode\<close> for \<open>get_header\<close>: when decoding the
  overlaid bytes raises, the handler (its header, boundary and item among its
  attributes) and the library are as before the call, and the exception leaves
  \<open>write\<close> unless it is an IOError, which is logged; a number returned by \<open>write\<close> is
  \<open>len(buf)\<close>; and \<open>write\<close> does return \<open>len(buf)\<close> when the overlaid bytes decode,
  the four tags are present and the header is encoded.
\<close>

theorem write_atomic:
  "(offs < bound self \<and> header self = Some hdr \<and> format self = ''flac''
      \<and> decode (py_slice (hdr @ music_data self) 0 offs @ wbuf
                  @ py_slice_from (hdr @ music_data self) (offs + int (length wbuf))) = Inl e
     \<longrightarrow> write_with decode encode M self lib offs wbuf
           = ((self, lib), if is_IOError M e then Inr None else Inl e))
   \<and> (write_with decode encode M self lib offs wbuf = (s, Inr (Some n)) \<longrightarrow> n = length wbuf)
   \<and> (offs < bound self \<and> header self = Some hdr \<and> format self = ''flac''
      \<and> decode (py_slice (hdr @ music_data self) 0 offs @ wbuf
                  @ py_slice_from (hdr @ music_data self) (offs + int (length wbuf))) = Inr inf0
      \<and> (\<forall>k. \<exists>v. tag_get M inf0 k = Inr v)
      \<and> (\<forall>i. \<exists>h i1 off. encode i = (Inr h, i1) \<and> offset i1 = Some off)
     \<longrightarrow> snd (write_with decode encode M self lib offs wbuf) = Inr (Some (length wbuf)))"
  using write_decode_fails [of offs self hdr decode wbuf e encode M lib]
    write_returns [of decode encode M self lib offs wbuf s n]
    write_succeeds [of offs self hdr decode wbuf inf0 M encode lib]
  by blast

lemma overlay0:
  "py_slice ([1, 2, 3, 4] @ [5, 6, 7 :: byte]) 0 1 @ [9]
     @ py_slice_from ([1, 2, 3, 4] @ [5, 6, 7]) (1 + int (length [9 :: byte])) = [1, 9, 3, 4, 5, 6, 7]"
  by (simp add: py_slice_def py_slice_from_def slice_index_def)

lemma decode_overlay0: "InterpolatedFLAC [1, 9, 3, 4, 5, 6, 7] = Inl AttributeError"
  by code_simp

theorem write_atomic_witness:
  "fh_write mutagen0 handler0 lib0 1 [9] = ((handler0, lib0), Inl AttributeError)
   \<and> snd (write_with decode1 encode1 mutagen1 handler0 lib0 1 [9]) = Inr (Some 1)"
proof -
  have h: "1 < bound handler0" "header handler0 = Some [1, 2, 3, 4]" "format handler0 = ''flac''"
    "music_data handler0 = [5, 6, 7]"
    by (simp_all add: handler0_def)
  have d0: "InterpolatedFLAC (py_slice ([1, 2, 3, 4] @ music_data handler0) 0 1 @ [9]
     @ py_slice_from ([1, 2, 3, 4] @ music_data handler0) (1 + int (length [9 :: byte])))
     = Inl AttributeError"
    unfolding h(4) overlay0 by (rule decode_overlay0)
  have d1: "decode1 (py_slice ([1, 2, 3, 4] @ music_data handler0) 0 1 @ [9]
     @ py_slice_from ([1, 2, 3, 4] @ music_data handler0) (1 + int (length [9 :: byte])))
     = Inr flac0"
    by (simp add: decode1_def)
  have t1: "\<forall>k. \<exists>v. tag_get mutagen1 flac0 k = Inr v" by (simp add: mutagen1_def)
  have e1: "\<forall>i. \<exists>h i1 off. encode1 i = (Inr h, i1) \<and> offset i1 = Some off"
    by (simp add: encode1_def)
  have io: "\<not> is_IOError mutagen0 AttributeError" by (simp add: mutagen0_def)
  from write_atomic [of 1 handler0 "[1, 2, 3, 4]" InterpolatedFLAC "[9]" AttributeError
      get_header mutagen0 lib0] h d0 io
  have a: "fh_write mutagen0 handler0 lib0 1 [9] = ((handler0, lib0), Inl AttributeError)"
    by (simp add: fh_write_def)
  from write_atomic [of 1 handler0 "[1, 2, 3, 4]" decode1 "[9]" _ encode1 mutagen1 lib0 _ _ flac0]
    h d1 t1 e1
  have b: "snd (write_with decode1 encode1 mutagen1 handler0 lib0 1 [9]) = Inr (Some 1)"
    by simp
  from a b show ?thesis by simp
qed

lemma lookup_mp3: "lookup_item tree_mp3 3 lib_mp3 vpath_mp3 = Inr item_mp3"
  by (simp add: lookup_item_def tree_mp3_def lib_mp3_def vpath_mp3_def andThen_def getitem_def
      py_slice_def slice_index_def py_index_def Let_def)

lemma lookup_ogg: "lookup_item tree_mp3 3 lib_mp3 vpath_ogg = Inr item_mp3"
  by (simp add: lookup_item_def tree_mp3_def lib_mp3_def vpath_ogg_def andThen_def getitem_def
      py_slice_def slice_index_def py_index_def Let_def)

lemma ext_mp3: "lower (drop (Suc 0) (splitext_ext vpath_mp3)) = ''mp3''"
  by code_simp

lemma ext_ogg: "lower (drop (Suc 0) (splitext_ext vpath_ogg)) = ''ogg''"
  by code_simp

lemma init_mp3_ok:
  "FileHandler_init M tree_mp3 3 lib_mp3 disk_mp3 vpath_mp3 =
     Inr \<lparr>fh_path = vpath_mp3, fh_item = item_mp3, real_path = ''/music/a.mp3'',
          instance_count = 1, format = ''mp3'', inf = None, header = None, bound = 0,
          music_offset = 0, music_data = [0xFF, 0xFB, 0x90, 0x00]\<rparr>"
  using ext_mp3
  by (simp add: FileHandler_init_def lookup_mp3 andThen_def disk_mp3_def item_mp3_def item0_def Let_def)

text \<open>
  Claim C8, evaluated at an mp3 file. The handler is constructed with \<open>bound = 0\<close>
  and no attribute \<open>header\<close>. The claim has \<open>read\<close> return the bytes of the file;
  \<open>read(1, 0)\<close> raises AttributeError at \<open>len(self.header)\<close>.
\<close>

theorem mp3_read_raises:
  "\<exists>h. FileHandler_init mutagen0 tree_mp3 3 lib_mp3 disk_mp3 vpath_mp3 = Inr h
     \<and> format h = ''mp3'' \<and> bound h = 0 \<and> header h = None
     \<and> fh_read h 1 0 = Inl AttributeError"
  by (simp add: init_mp3_ok fh_read_def)

lemma fs_open_fails:
  assumes "FileHandler_init M tree d lib disk p = Inl e" "fs0 p = None"
  shows "fs_open M tree d lib disk (Some fs0) p = (Some fs0, Inl (- EACCES))"
  using assms by (simp add: fs_open_def)

text \<open>
  Claim C10. When \<open>__init__\<close> completes, the format (the lower-cased extension of
  the path) is flac or mp3. For any other extension \<open>__init__\<close> raises, and
  \<open>beetFileSystem.open\<close> on a path with no handler yet returns the error number and
  leaves \<open>self.files\<close> without an entry for the path.
\<close>

theorem init_only_flac_mp3:
  "(FileHandler_init M tree d lib disk p = Inr h \<longrightarrow>
      format h = lower (drop 1 (splitext_ext p)) \<and> (format h = ''flac'' \<or> format h = ''mp3''))
   \<and> (lower (drop 1 (splitext_ext p)) \<noteq> ''flac'' \<and> lower (drop 1 (splitext_ext p)) \<noteq> ''mp3'' \<longrightarrow>
        (\<exists>e. FileHandler_init M tree d lib disk p = Inl e)
        \<and> (fs0 p = None \<longrightarrow> fs_open M tree d lib disk (Some fs0) p = (Some fs0, Inl (- EACCES))))"
proof (intro conjI impI)
  assume "FileHandler_init M tree d lib disk p = Inr h"
  then show "format h = lower (drop 1 (splitext_ext p))" "format h = ''flac'' \<or> format h = ''mp3''"
    using init_format by blast+
next
  assume a: "lower (drop 1 (splitext_ext p)) \<noteq> ''flac'' \<and> lower (drop 1 (splitext_ext p)) \<noteq> ''mp3''"
  then show e: "\<exists>e. FileHandler_init M tree d lib disk p = Inl e"
    using init_other by blast
  assume "fs0 p = None"
  with e show "fs_open M tree d lib disk (Some fs0) p = (Some fs0, Inl (- EACCES))"
    using fs_open_fails by blast
qed

theorem init_only_flac_mp3_witness:
  "(\<exists>h. FileHandler_init mutagen0 tree_mp3 3 lib_mp3 disk_mp3 vpath_mp3 = Inr h
       \<and> format h = ''mp3'')
   \<and> (\<exists>e. FileHandler_init mutagen0 tree_mp3 3 lib_mp3 disk_mp3 vpath_ogg = Inl e)
   \<and> fs_open mutagen0 tree_mp3 3 lib_mp3 disk_mp3 (Some Map.empty) vpath_ogg
        = (Some Map.empty, Inl (- EACCES))"
proof -
  obtain h where h: "FileHandler_init mutagen0 tree_mp3 3 lib_mp3 disk_mp3 vpath_mp3 = Inr h"
    using init_mp3_ok by blast
  from init_only_flac_mp3 [of mutagen0 tree_mp3 3 lib_mp3 disk_mp3 vpath_mp3 h] h ext_mp3
  have 1: "format h = ''mp3''" by simp
  have ne: "lower (drop 1 (splitext_ext vpath_ogg)) \<noteq> ''flac''
      \<and> lower (drop 1 (splitext_ext vpath_ogg)) \<noteq> ''mp3''"
    by (simp add: ext_ogg)
  from init_only_flac_mp3 [of mutagen0 tree_mp3 3 lib_mp3 disk_mp3 vpath_ogg _ Map.empty] ne
  have 2: "\<exists>e. FileHandler_init mutagen0 tree_mp3 3 lib_mp3 disk_mp3 vpath_ogg = Inl e"
    and 3: "fs_open mutagen0 tree_mp3 3 lib_mp3 disk_mp3 (Some Map.empty) vpath_ogg
        = (Some Map.empty, Inl (- EACCES))"
    by simp_all
  from h 1 2 3 show ?thesis by blast
qed

lemma init_flac_raises:
  assumes "lower (drop 1 (splitext_ext p)) = ''flac''"
  shows "\<exists>e. FileHandler_init M tree d lib disk p = Inl e"
proof (cases "lookup_item tree d lib p")
  case (Inl e)
  then show ?thesis by (simp add: FileHandler_init_def andThen_def)
next
  case (Inr it)
  show ?thesis
  proof (cases "disk (path it)")
    case None
    with Inr show ?thesis by (simp add: FileHandler_init_def andThen_def)
  next
    case (Some contents)
    obtain e where "init_bounds M it ''flac'' contents = Inl e"
      using init_bounds_flac by blast
    with Inr Some assms show ?thesis by (simp add: FileHandler_init_def andThen_def)
  qed
qed

text \<open>
  Every read of an mp3 handler raises, whatever the size and the offset.
\<close>

theorem mp3_read_always_raises:
  "FileHandler_init M tree d lib disk p = Inr h \<Longrightarrow> format h = ''mp3'' \<Longrightarrow>
   header h = None \<and> bound h = 0 \<and> fh_read h sz offs = Inl AttributeError"
  by (rule init_mp3)

theorem mp3_read_always_raises_witness:
  "\<exists>h. FileHandler_init mutagen0 tree_mp3 3 lib_mp3 disk_mp3 vpath_mp3 = Inr h
     \<and> format h = ''mp3'' \<and> fh_read h 4 0 = Inl AttributeError
     \<and> fh_read h 2 2 = Inl AttributeError"
proof -
  obtain h where h: "FileHandler_init mutagen0 tree_mp3 3 lib_mp3 disk_mp3 vpath_mp3 = Inr h"
    "format h = ''mp3''"
    using init_mp3_ok by force
  from mp3_read_always_raises [OF h, of 4 0] mp3_read_always_raises [OF h, of 2 2] h
  show ?thesis by blast
qed

text \<open>
  No flac file is opened: for a path with the extension flac, \<open>__init__\<close> raises,
  at the latest in the constructor \<open>InterpolatedFLAC\<close>.
\<close>

theorem flac_open_never_completes:
  "lower (drop 1 (splitext_ext p)) = ''flac'' \<Longrightarrow> \<exists>e. FileHandler_init M tree d lib disk p = Inl e"
  by (rule init_flac_raises)

theorem flac_open_never_completes_witness:
  "lower (drop 1 (splitext_ext vpath_flac)) = ''flac''
   \<and> (\<exists>e. FileHandler_init mutagen0 tree1 3 lib0 disk_flac vpath_flac = Inl e)"
proof -
  have e: "lower (drop 1 (splitext_ext vpath_flac)) = ''flac''" by code_simp
  from flac_open_never_completes [OF e] e show ?thesis by blast
qed

end
